theory Spec2Isabelle
  imports Main "HOL-Library.Sublist" "HOL-Library.AList"
begin

section \<open>Data model\<close>

text \<open>
  The validator of \<^verbatim>\<open>src/semantico/pattern_validator.py\<close> receives the output of
  the syntactic analysis as Python dictionaries. The input dictionaries are modelled as
  records: a key the code reads with \<^verbatim>\<open>d['k']\<close> is a plain field (the input type
  has it), a key read with \<^verbatim>\<open>d.get('k')\<close> or \<^verbatim>\<open>d.get('k', default)\<close> is an
  optional field, \<open>None\<close> when the key is absent. Python strings are lists of
  characters; the accented letters of the source's messages are written by their code
  point (\<open>CHR 0xF3\<close> is o-acute). Source lines are integers.
\<close>

record body_member =
  mem_stereotype :: "string option"

record model_class =
  cls_name :: string
  cls_stereotype :: string
  cls_parents :: "string list option"
  cls_body :: "body_member list option"
  cls_line :: int

record genset =
  gs_name :: string
  gs_general :: "string option"
  gs_specifics :: "string list option"
  gs_modifiers :: "string list option"

record relation =
  rel_internal :: "bool option"
  rel_stereotype :: "string option"

record analysis_data =
  ad_classes :: "model_class list option"
  ad_gensets :: "genset list option"
  ad_relations :: "relation list option"

text \<open>
  The dictionaries the validator builds itself (the patterns it records and the rows it
  formats) are association lists in the order of the dictionary literal, over the three
  kinds of value that occur in them. Reading a missing key raises \<^verbatim>\<open>KeyError\<close>;
  \<^verbatim>\<open>in\<close> on an integer and a list used as the key of a dictionary raise
  \<^verbatim>\<open>TypeError\<close>.
\<close>

datatype pyval = PStr string | PInt int | PList "string list"

type_synonym pydict = "(string \<times> pyval) list"

datatype pyerror = KeyError string | TypeError

record validator =
  classes :: "model_class list"
  gensets :: "genset list"
  relations :: "relation list"
  complete_patterns :: "pydict list"
  incomplete_patterns :: "pydict list"

record validation_result =
  res_complete :: "pydict list"
  res_incomplete :: "pydict list"

record summary =
  total_complete :: nat
  total_incomplete :: nat
  complete_by_type :: "(pyval \<times> nat) list"
  incomplete_by_type :: "(pyval \<times> nat) list"

text \<open>
  Two built-ins of the interpreter are parameters of the model: \<^verbatim>\<open>repr\<close> of a list
  of strings (its quoting and escaping follow the interpreter's character tables) and
  \<^verbatim>\<open>str\<close> of a dictionary.
\<close>

record py_builtins =
  repr_list :: "string list \<Rightarrow> string"
  str_dict :: "pydict \<Rightarrow> string"

section \<open>Python primitives\<close>

definition field_get :: "'a option \<Rightarrow> 'a \<Rightarrow> 'a" where
  "field_get field dflt = (case field of None \<Rightarrow> dflt | Some x \<Rightarrow> x)"

definition getitem :: "pydict \<Rightarrow> string \<Rightarrow> pyerror + pyval" where
  "getitem d k = (case map_of d k of None \<Rightarrow> Inl (KeyError k) | Some x \<Rightarrow> Inr x)"

definition dict_get :: "pydict \<Rightarrow> string \<Rightarrow> pyval \<Rightarrow> pyval" where
  "dict_get d k dflt = (case map_of d k of None \<Rightarrow> dflt | Some x \<Rightarrow> x)"

definition bind_err :: "pyerror + 'a \<Rightarrow> ('a \<Rightarrow> pyerror + 'b) \<Rightarrow> pyerror + 'b" where
  "bind_err m f = (case m of Inl e \<Rightarrow> Inl e | Inr x \<Rightarrow> f x)"

fun map_err :: "('a \<Rightarrow> pyerror + 'b) \<Rightarrow> 'a list \<Rightarrow> pyerror + 'b list" where
  "map_err f [] = Inr []"
| "map_err f (x # xs) =
     bind_err (f x) (\<lambda>y. bind_err (map_err f xs) (\<lambda>ys. Inr (y # ys)))"

fun join :: "string \<Rightarrow> string list \<Rightarrow> string" where
  "join sep [] = []"
| "join sep [x] = x"
| "join sep (x # y # ys) = x @ sep @ join sep (y # ys)"

fun str_nat :: "nat \<Rightarrow> string" where
  "str_nat n =
     (if n < 10 then [''0123456789'' ! n]
      else str_nat (n div 10) @ [''0123456789'' ! (n mod 10)])"

declare str_nat.simps [simp del]

definition str_int :: "int \<Rightarrow> string" where
  "str_int i = (if i < 0 then ''-'' @ str_nat (nat (- i)) else str_nat (nat i))"

definition py_str :: "py_builtins \<Rightarrow> pyval \<Rightarrow> string" where
  "py_str py x = (case x of PStr s \<Rightarrow> s | PInt i \<Rightarrow> str_int i | PList l \<Rightarrow> repr_list py l)"

definition py_in :: "string \<Rightarrow> pyval \<Rightarrow> pyerror + bool" where
  "py_in s x =
     (case x of PStr t \<Rightarrow> Inr (sublist s t) | PList l \<Rightarrow> Inr (s \<in> set l) | PInt i \<Rightarrow> Inl TypeError)"

abbreviation apos :: string where
  "apos \<equiv> [CHR 0x27]"

section \<open>The validator\<close>

definition init :: "analysis_data \<Rightarrow> validator" where
  "init ad =
     \<lparr>classes = field_get (ad_classes ad) [],
      gensets = field_get (ad_gensets ad) [],
      relations = field_get (ad_relations ad) [],
      complete_patterns = [],
      incomplete_patterns = []\<rparr>"

definition append_complete :: "pydict \<Rightarrow> validator \<Rightarrow> validator" where
  "append_complete d self = self\<lparr>complete_patterns := complete_patterns self @ [d]\<rparr>"

definition append_incomplete :: "pydict \<Rightarrow> validator \<Rightarrow> validator" where
  "append_incomplete d self = self\<lparr>incomplete_patterns := incomplete_patterns self @ [d]\<rparr>"

subsection \<open>Genset matcher\<close>

fun find_genset_loop ::
  "genset list \<Rightarrow> string \<Rightarrow> string list \<Rightarrow> string list \<Rightarrow> string list \<Rightarrow> genset option" where
  "find_genset_loop [] general_class specific_classes required forbidden = None"
| "find_genset_loop (genset # rest) general_class specific_classes required forbidden =
     (if gs_general genset \<noteq> Some general_class
      then find_genset_loop rest general_class specific_classes required forbidden
      else if \<not> list_all (\<lambda>spec. spec \<in> set (field_get (gs_specifics genset) []))
                  specific_classes
      then find_genset_loop rest general_class specific_classes required forbidden
      else if \<not> list_all (\<lambda>m. m \<in> set (field_get (gs_modifiers genset) [])) required
      then find_genset_loop rest general_class specific_classes required forbidden
      else if list_ex (\<lambda>m. m \<in> set (field_get (gs_modifiers genset) [])) forbidden
      then find_genset_loop rest general_class specific_classes required forbidden
      else Some genset)"

definition find_genset_for_classes ::
  "validator \<Rightarrow> string \<Rightarrow> string list \<Rightarrow> string list option \<Rightarrow> string list option
     \<Rightarrow> genset option" where
  "find_genset_for_classes self general_class specific_classes required_modifiers
       forbidden_modifiers =
     find_genset_loop (gensets self) general_class specific_classes
       (field_get required_modifiers []) (field_get forbidden_modifiers [])"

subsection \<open>Subkind, Role and Phase patterns\<close>

text \<open>
  Each checker is a loop over the selected classes; the loop body is a function on the
  validator, and the loop is \<open>fold\<close>. \<^verbatim>\<open>if genset_found:\<close> tests a dictionary for
  being non-empty, and a genset the matcher returns has its \<^verbatim>\<open>general\<close> key.
\<close>

definition subkind_body :: "model_class \<Rightarrow> validator \<Rightarrow> validator" where
  "subkind_body kind self =
     (let kind_name = cls_name kind;
          subkinds = filter (\<lambda>c. cls_stereotype c = ''subkind'' \<and>
                                   kind_name \<in> set (field_get (cls_parents c) []))
                       (classes self)
      in if length subkinds < 2 then self
         else (case find_genset_for_classes self kind_name (map cls_name subkinds)
                      (Some [''disjoint'', ''complete'']) None of
                 Some genset_found \<Rightarrow>
                   append_complete
                     [(''type'', PStr ''Subkind Pattern''),
                      (''kind'', PStr kind_name),
                      (''subkinds'', PList (map cls_name subkinds)),
                      (''genset'', PStr (gs_name genset_found)),
                      (''line'', PInt (cls_line kind))] self
               | None \<Rightarrow>
                   append_incomplete
                     [(''type'', PStr ''Subkind Pattern''),
                      (''kind'', PStr kind_name),
                      (''subkinds'', PList (map cls_name subkinds)),
                      (''error'', PStr ''Falta genset disjoint complete''),
                      (''suggestion'', PStr (''Adicione: disjoint complete genset '' @ kind_name
                         @ ''_Genset { general '' @ kind_name @ '' specifics ''
                         @ join '', '' (map cls_name subkinds) @ '' }'')),
                      (''line'', PInt (cls_line kind))] self))"

definition validate_subkind_pattern :: "validator \<Rightarrow> validator" where
  "validate_subkind_pattern self =
     (let kinds = filter (\<lambda>c. cls_stereotype c = ''kind'') (classes self)
      in fold subkind_body kinds self)"

definition role_body :: "model_class \<Rightarrow> validator \<Rightarrow> validator" where
  "role_body kind self =
     (let kind_name = cls_name kind;
          roles = filter (\<lambda>c. cls_stereotype c = ''role'' \<and>
                                kind_name \<in> set (field_get (cls_parents c) []))
                    (classes self)
      in if length roles < 2 then self
         else (case find_genset_for_classes self kind_name (map cls_name roles)
                      (Some [''complete'']) (Some [''disjoint'']) of
                 Some genset_found \<Rightarrow>
                   append_complete
                     [(''type'', PStr ''Role Pattern''),
                      (''kind'', PStr kind_name),
                      (''roles'', PList (map cls_name roles)),
                      (''genset'', PStr (gs_name genset_found)),
                      (''line'', PInt (cls_line kind))] self
               | None \<Rightarrow>
                   append_incomplete
                     [(''type'', PStr ''Role Pattern''),
                      (''kind'', PStr kind_name),
                      (''roles'', PList (map cls_name roles)),
                      (''error'', PStr ''Falta genset complete (sem disjoint)''),
                      (''suggestion'', PStr (''Adicione: complete genset '' @ kind_name
                         @ ''_Role_Genset { general '' @ kind_name @ '' specifics ''
                         @ join '', '' (map cls_name roles) @ '' }'')),
                      (''line'', PInt (cls_line kind))] self))"

definition validate_role_pattern :: "validator \<Rightarrow> validator" where
  "validate_role_pattern self =
     (let kinds = filter (\<lambda>c. cls_stereotype c = ''kind'') (classes self)
      in fold role_body kinds self)"

definition phase_body :: "model_class \<Rightarrow> validator \<Rightarrow> validator" where
  "phase_body kind self =
     (let kind_name = cls_name kind;
          phases = filter (\<lambda>c. cls_stereotype c = ''phase'' \<and>
                                 kind_name \<in> set (field_get (cls_parents c) []))
                     (classes self)
      in if length phases < 2 then self
         else (case find_genset_for_classes self kind_name (map cls_name phases)
                      (Some [''disjoint'']) None of
                 Some genset_found \<Rightarrow>
                   append_complete
                     [(''type'', PStr ''Phase Pattern''),
                      (''kind'', PStr kind_name),
                      (''phases'', PList (map cls_name phases)),
                      (''genset'', PStr (gs_name genset_found)),
                      (''line'', PInt (cls_line kind))] self
               | None \<Rightarrow>
                   append_incomplete
                     [(''type'', PStr ''Phase Pattern''),
                      (''kind'', PStr kind_name),
                      (''phases'', PList (map cls_name phases)),
                      (''error'', PStr (''Falta genset disjoint (obrigat'' @ [CHR 0xF3]
                         @ ''rio para phases)'')),
                      (''suggestion'', PStr (''Adicione: disjoint complete genset '' @ kind_name
                         @ ''_Phase_Genset { general '' @ kind_name @ '' specifics ''
                         @ join '', '' (map cls_name phases) @ '' }'')),
                      (''line'', PInt (cls_line kind))] self))"

definition validate_phase_pattern :: "validator \<Rightarrow> validator" where
  "validate_phase_pattern self =
     (let kinds = filter (\<lambda>c. cls_stereotype c = ''kind'') (classes self)
      in fold phase_body kinds self)"

subsection \<open>Relator pattern\<close>

text \<open>
  The inner loops of the relator checker: for every relation kept in \<open>mediations\<close>, when
  the relator's body is a non-empty list, every member of the body with stereotype
  \<open>mediation\<close> is appended to \<open>relator_mediations\<close>.
\<close>

definition relator_member_loop ::
  "body_member list \<Rightarrow> body_member list \<Rightarrow> body_member list" where
  "relator_member_loop body relator_mediations =
     fold (\<lambda>member acc. if mem_stereotype member = Some ''mediation'' then acc @ [member]
                          else acc)
       body relator_mediations"

definition relator_med_loop ::
  "model_class \<Rightarrow> relation list \<Rightarrow> body_member list" where
  "relator_med_loop relator mediations =
     fold (\<lambda>med acc. case cls_body relator of
                        None \<Rightarrow> acc
                      | Some body \<Rightarrow> if body = [] then acc else relator_member_loop body acc)
       mediations []"

definition relator_body :: "model_class \<Rightarrow> validator \<Rightarrow> validator" where
  "relator_body relator self =
     (let relator_name = cls_name relator;
          mediations = filter (\<lambda>r. rel_internal r = Some True \<and>
                                     rel_stereotype r = Some ''mediation'')
                         (relations self);
          relator_mediations = relator_med_loop relator mediations
      in if length relator_mediations \<ge> 2
         then append_complete
                [(''type'', PStr ''Relator Pattern''),
                 (''relator'', PStr relator_name),
                 (''mediations'', PInt (int (length relator_mediations))),
                 (''line'', PInt (cls_line relator))] self
         else append_incomplete
                [(''type'', PStr ''Relator Pattern''),
                 (''relator'', PStr relator_name),
                 (''mediations'', PInt (int (length relator_mediations))),
                 (''error'', PStr (''Relator deve ter pelo menos 2 media''
                    @ [CHR 0xE7, CHR 0xF5] @ ''es (tem ''
                    @ str_int (int (length relator_mediations)) @ '')'')),
                 (''suggestion'', PStr (''Adicione rela'' @ [CHR 0xE7, CHR 0xF5]
                    @ ''es @mediation dentro do relator '' @ relator_name)),
                 (''line'', PInt (cls_line relator))] self)"

definition validate_relator_pattern :: "validator \<Rightarrow> validator" where
  "validate_relator_pattern self =
     (let relators = filter (\<lambda>c. cls_stereotype c = ''relator'') (classes self)
      in fold relator_body relators self)"

subsection \<open>Mode pattern\<close>

definition mode_scan :: "body_member list option \<Rightarrow> bool \<times> bool" where
  "mode_scan body_field =
     (case body_field of
        None \<Rightarrow> (False, False)
      | Some body \<Rightarrow>
          if body = [] then (False, False)
          else fold (\<lambda>member (has_characterization, has_external_dependence).
                       (if mem_stereotype member = Some ''characterization'' then True
                        else has_characterization,
                        if mem_stereotype member = Some ''externalDependence'' then True
                        else has_external_dependence))
                 body (False, False))"

definition mode_body :: "model_class \<Rightarrow> validator \<Rightarrow> validator" where
  "mode_body mode self =
     (let mode_name = cls_name mode;
          (has_characterization, has_external_dependence) = mode_scan (cls_body mode)
      in if has_characterization \<and> has_external_dependence
         then append_complete
                [(''type'', PStr ''Mode Pattern''),
                 (''mode'', PStr mode_name),
                 (''line'', PInt (cls_line mode))] self
         else (let missing = (if \<not> has_characterization then [''@characterization''] else [])
                             @ (if \<not> has_external_dependence then [''@externalDependence'']
                                else [])
               in append_incomplete
                    [(''type'', PStr ''Mode Pattern''),
                     (''mode'', PStr mode_name),
                     (''error'', PStr (''Faltam rela'' @ [CHR 0xE7, CHR 0xF5] @ ''es: ''
                        @ join '', '' missing)),
                     (''suggestion'', PStr (''Adicione '' @ join '' e '' missing
                        @ '' dentro do mode '' @ mode_name)),
                     (''line'', PInt (cls_line mode))] self))"

definition validate_mode_pattern :: "validator \<Rightarrow> validator" where
  "validate_mode_pattern self =
     (let modes = filter (\<lambda>c. cls_stereotype c = ''mode'') (classes self)
      in fold mode_body modes self)"

subsection \<open>RoleMixin pattern\<close>

definition rolemixin_body :: "model_class \<Rightarrow> validator \<Rightarrow> validator" where
  "rolemixin_body rolemixin self =
     (let rolemixin_name = cls_name rolemixin;
          roles = filter (\<lambda>c. cls_stereotype c = ''role'' \<and>
                                rolemixin_name \<in> set (field_get (cls_parents c) []))
                    (classes self)
      in if length roles < 2
         then append_incomplete
                [(''type'', PStr ''RoleMixin Pattern''),
                 (''rolemixin'', PStr rolemixin_name),
                 (''error'', PStr (''Precisa de pelo menos 2 roles especializando ''
                    @ rolemixin_name)),
                 (''suggestion'', PStr (''Adicione roles que especializam '' @ rolemixin_name)),
                 (''line'', PInt (cls_line rolemixin))] self
         else (case find_genset_for_classes self rolemixin_name (map cls_name roles)
                      (Some [''disjoint'', ''complete'']) None of
                 Some genset_found \<Rightarrow>
                   append_complete
                     [(''type'', PStr ''RoleMixin Pattern''),
                      (''rolemixin'', PStr rolemixin_name),
                      (''roles'', PList (map cls_name roles)),
                      (''genset'', PStr (gs_name genset_found)),
                      (''line'', PInt (cls_line rolemixin))] self
               | None \<Rightarrow>
                   append_incomplete
                     [(''type'', PStr ''RoleMixin Pattern''),
                      (''rolemixin'', PStr rolemixin_name),
                      (''roles'', PList (map cls_name roles)),
                      (''error'', PStr ''Falta genset disjoint complete''),
                      (''suggestion'', PStr (''Adicione: disjoint complete genset ''
                         @ rolemixin_name @ ''_Genset { general '' @ rolemixin_name
                         @ '' specifics '' @ join '', '' (map cls_name roles) @ '' }'')),
                      (''line'', PInt (cls_line rolemixin))] self))"

definition validate_rolemixin_pattern :: "validator \<Rightarrow> validator" where
  "validate_rolemixin_pattern self =
     (let rolemixins = filter (\<lambda>c. cls_stereotype c = ''roleMixin'') (classes self)
      in fold rolemixin_body rolemixins self)"

subsection \<open>Formatting and the entry points\<close>

definition format_complete_pattern :: "py_builtins \<Rightarrow> pydict \<Rightarrow> pyerror + pydict" where
  "format_complete_pattern py pattern_data =
     bind_err (getitem pattern_data ''type'') (\<lambda>pattern_type.
     let line = dict_get pattern_data ''line'' (PStr ''-'');
         finish = (\<lambda>details.
           Inr [(''pattern'', pattern_type), (''details'', PStr details), (''line'', line)])
     in
     bind_err (py_in ''Subkind'' pattern_type) (\<lambda>has_subkind.
     if has_subkind then
       bind_err (getitem pattern_data ''kind'') (\<lambda>kind.
       bind_err (getitem pattern_data ''subkinds'') (\<lambda>subkinds.
       bind_err (getitem pattern_data ''genset'') (\<lambda>genset.
       finish (''Kind '' @ apos @ py_str py kind @ apos @ '' com subkinds ''
               @ py_str py subkinds @ '' e genset '' @ apos @ py_str py genset @ apos))))
     else
     bind_err (py_in ''Role'' pattern_type) (\<lambda>has_role.
     bind_err (if has_role then py_in ''RoleMixin'' pattern_type else Inr True)
       (\<lambda>has_rolemixin.
     if has_role \<and> \<not> has_rolemixin then
       bind_err (getitem pattern_data ''kind'') (\<lambda>kind.
       bind_err (getitem pattern_data ''roles'') (\<lambda>roles.
       bind_err (getitem pattern_data ''genset'') (\<lambda>genset.
       finish (''Kind '' @ apos @ py_str py kind @ apos @ '' com roles ''
               @ py_str py roles @ '' e genset '' @ apos @ py_str py genset @ apos))))
     else
     bind_err (py_in ''Phase'' pattern_type) (\<lambda>has_phase.
     if has_phase then
       bind_err (getitem pattern_data ''kind'') (\<lambda>kind.
       bind_err (getitem pattern_data ''phases'') (\<lambda>phases.
       bind_err (getitem pattern_data ''genset'') (\<lambda>genset.
       finish (''Kind '' @ apos @ py_str py kind @ apos @ '' com phases ''
               @ py_str py phases @ '' e genset '' @ apos @ py_str py genset @ apos))))
     else
     bind_err (py_in ''Relator'' pattern_type) (\<lambda>has_relator.
     if has_relator then
       bind_err (getitem pattern_data ''relator'') (\<lambda>relator.
       bind_err (getitem pattern_data ''mediations'') (\<lambda>mediations.
       finish (''Relator '' @ apos @ py_str py relator @ apos @ '' com ''
               @ py_str py mediations @ '' media'' @ [CHR 0xE7, CHR 0xF5] @ ''es'')))
     else
     bind_err (py_in ''Mode'' pattern_type) (\<lambda>has_mode.
     if has_mode then
       bind_err (getitem pattern_data ''mode'') (\<lambda>mode.
       finish (''Mode '' @ apos @ py_str py mode @ apos
               @ '' com @characterization e @externalDependence''))
     else
     bind_err (py_in ''RoleMixin'' pattern_type) (\<lambda>is_rolemixin.
     if is_rolemixin then
       bind_err (getitem pattern_data ''rolemixin'') (\<lambda>rolemixin.
       bind_err (getitem pattern_data ''roles'') (\<lambda>roles.
       bind_err (getitem pattern_data ''genset'') (\<lambda>genset.
       finish (''RoleMixin '' @ apos @ py_str py rolemixin @ apos @ '' com roles ''
               @ py_str py roles @ '' e genset '' @ apos @ py_str py genset @ apos))))
     else finish (str_dict py pattern_data)))))))))"

definition format_incomplete_pattern :: "pydict \<Rightarrow> pyerror + pydict" where
  "format_incomplete_pattern pattern_data =
     bind_err (getitem pattern_data ''type'') (\<lambda>pattern_type.
     bind_err (getitem pattern_data ''error'') (\<lambda>error.
     bind_err (getitem pattern_data ''suggestion'') (\<lambda>suggestion.
     Inr [(''pattern'', pattern_type),
          (''error'', error),
          (''suggestion'', suggestion),
          (''line'', dict_get pattern_data ''line'' (PStr ''-''))])))"

text \<open>
  \<open>validate_all\<close> returns the value the call returns (or the exception it raises)
  together with the validator after the call.
\<close>

definition run_checkers :: "validator \<Rightarrow> validator" where
  "run_checkers self =
     validate_rolemixin_pattern
       (validate_mode_pattern
         (validate_relator_pattern
           (validate_phase_pattern
             (validate_role_pattern
               (validate_subkind_pattern
                 (self\<lparr>complete_patterns := [], incomplete_patterns := []\<rparr>))))))"

definition validate_all ::
  "py_builtins \<Rightarrow> validator \<Rightarrow> (pyerror + validation_result) \<times> validator" where
  "validate_all py self =
     (let self' = run_checkers self
      in (bind_err (map_err (format_complete_pattern py) (complete_patterns self'))
            (\<lambda>formatted_complete.
          bind_err (map_err format_incomplete_pattern (incomplete_patterns self'))
            (\<lambda>formatted_incomplete.
          Inr \<lparr>res_complete = formatted_complete, res_incomplete = formatted_incomplete\<rparr>)),
          self'))"

fun count_by_type_loop ::
  "pydict list \<Rightarrow> (pyval \<times> nat) list \<Rightarrow> pyerror + (pyval \<times> nat) list" where
  "count_by_type_loop [] counts = Inr counts"
| "count_by_type_loop (pattern # rest) counts =
     bind_err (getitem pattern ''type'') (\<lambda>ptype.
       case ptype of
         PList l \<Rightarrow> Inl TypeError
       | _ \<Rightarrow> count_by_type_loop rest
                (AList.update ptype (field_get (map_of counts ptype) 0 + 1) counts))"

definition count_by_type :: "pydict list \<Rightarrow> pyerror + (pyval \<times> nat) list" where
  "count_by_type patterns = count_by_type_loop patterns []"

definition get_summary :: "validator \<Rightarrow> pyerror + summary" where
  "get_summary self =
     bind_err (count_by_type (complete_patterns self)) (\<lambda>complete_counts.
     bind_err (count_by_type (incomplete_patterns self)) (\<lambda>incomplete_counts.
     Inr \<lparr>total_complete = length (complete_patterns self),
          total_incomplete = length (incomplete_patterns self),
          complete_by_type = complete_counts,
          incomplete_by_type = incomplete_counts\<rparr>))"

section \<open>Notions used to state the properties\<close>

text \<open>
  The validator with both result lists emptied, and the validator with verdicts appended
  to its result lists. A function on validators is an \<open>appender\<close> when all it does is
  append verdicts that depend on the model only: what it appends is then read off its run
  from empty lists, \<open>complete_patterns (f (reset self))\<close> and
  \<open>incomplete_patterns (f (reset self))\<close>.
\<close>

definition reset :: "validator \<Rightarrow> validator" where
  "reset self = self\<lparr>complete_patterns := [], incomplete_patterns := []\<rparr>"

definition emit :: "pydict list \<Rightarrow> pydict list \<Rightarrow> validator \<Rightarrow> validator" where
  "emit cs ics self =
     self\<lparr>complete_patterns := complete_patterns self @ cs,
          incomplete_patterns := incomplete_patterns self @ ics\<rparr>"

definition appender :: "(validator \<Rightarrow> validator) \<Rightarrow> bool" where
  "appender f =
     (\<forall>self. f self = emit (complete_patterns (f (reset self)))
                         (incomplete_patterns (f (reset self))) self)"

text \<open>The classes of a stereotype that list a given name among their parents.\<close>

definition specializing :: "string \<Rightarrow> string \<Rightarrow> model_class list \<Rightarrow> model_class list" where
  "specializing stereotype parent cs =
     filter (\<lambda>c. cls_stereotype c = stereotype \<and> parent \<in> set (field_get (cls_parents c) []))
       cs"

text \<open>
  The qualification of a genset in the words of the specification: its general is the
  queried class, its specifics include the queried specifics, its modifiers include the
  required ones and none of the forbidden ones.
\<close>

definition spec_qualifies ::
  "string \<Rightarrow> string list \<Rightarrow> string list \<Rightarrow> string list \<Rightarrow> genset \<Rightarrow> bool" where
  "spec_qualifies general_class specific_classes required forbidden g =
     (gs_general g = Some general_class \<and>
      set specific_classes \<subseteq> set (field_get (gs_specifics g) []) \<and>
      set required \<subseteq> set (field_get (gs_modifiers g) []) \<and>
      set (field_get (gs_modifiers g) []) \<inter> set forbidden = {})"

text \<open>
  The suggestion template in the words of the specification, and the declaration text
  the checkers build, with the modifier words and the genset's name as given.
\<close>

definition spec_suggestion_template :: "string list \<Rightarrow> string \<Rightarrow> string list \<Rightarrow> string" where
  "spec_suggestion_template required kind names =
     join '' '' required @ '' genset '' @ kind @ ''_Genset { general '' @ kind
       @ '' specifics '' @ join '', '' names @ '' }''"

definition declaration_text :: "string \<Rightarrow> string \<Rightarrow> string \<Rightarrow> string list \<Rightarrow> string" where
  "declaration_text modifier_words genset_name kind names =
     modifier_words @ '' genset '' @ genset_name @ '' { general '' @ kind
       @ '' specifics '' @ join '', '' names @ '' }''"

text \<open>The two counts the relator checker works with.\<close>

definition internal_mediations :: "relation list \<Rightarrow> relation list" where
  "internal_mediations rs =
     filter (\<lambda>r. rel_internal r = Some True \<and> rel_stereotype r = Some ''mediation'') rs"

definition body_mediations :: "model_class \<Rightarrow> body_member list" where
  "body_mediations c =
     filter (\<lambda>m. mem_stereotype m = Some ''mediation'') (field_get (cls_body c) [])"

definition has_member :: "string \<Rightarrow> model_class \<Rightarrow> bool" where
  "has_member stereotype c =
     list_ex (\<lambda>m. mem_stereotype m = Some stereotype) (field_get (cls_body c) [])"

text \<open>
  The verdicts of a validator can all be formatted and have a string under \<open>type\<close>;
  the six checkers in their fixed
  order; the number of patterns of a list with a given value under \<open>type\<close>.
\<close>

definition formattable :: "py_builtins \<Rightarrow> validator \<Rightarrow> bool" where
  "formattable py self =
     ((\<forall>d \<in> set (complete_patterns self).
         (\<exists>r. format_complete_pattern py d = Inr r) \<and>
         (\<exists>t. getitem d ''type'' = Inr (PStr t))) \<and>
      (\<forall>d \<in> set (incomplete_patterns self).
         (\<exists>r. format_incomplete_pattern d = Inr r) \<and>
         (\<exists>t. getitem d ''type'' = Inr (PStr t))))"

definition all_checkers :: "validator \<Rightarrow> validator" where
  "all_checkers self =
     validate_rolemixin_pattern
       (validate_mode_pattern
         (validate_relator_pattern
           (validate_phase_pattern
             (validate_role_pattern
               (validate_subkind_pattern self)))))"

definition tally :: "pydict list \<Rightarrow> pyval \<Rightarrow> nat" where
  "tally patterns t = length (filter (\<lambda>p. getitem p ''type'' = Inr t) patterns)"

subsection \<open>Example models\<close>

definition plain_class :: "string \<Rightarrow> string \<Rightarrow> string list \<Rightarrow> int \<Rightarrow> model_class" where
  "plain_class n st ps l =
     \<lparr>cls_name = n, cls_stereotype = st, cls_parents = Some ps, cls_body = None, cls_line = l\<rparr>"

definition container_class :: "string \<Rightarrow> string \<Rightarrow> string list \<Rightarrow> int \<Rightarrow> model_class" where
  "container_class n st members l =
     \<lparr>cls_name = n, cls_stereotype = st, cls_parents = Some [],
      cls_body = Some (map (\<lambda>m. \<lparr>mem_stereotype = Some m\<rparr>) members), cls_line = l\<rparr>"

definition model_of :: "model_class list \<Rightarrow> genset list \<Rightarrow> relation list \<Rightarrow> validator" where
  "model_of cs gs rs =
     init \<lparr>ad_classes = Some cs, ad_gensets = Some gs, ad_relations = Some rs\<rparr>"

definition person_roles :: "model_class list" where
  "person_roles =
     [plain_class ''Person'' ''kind'' [] 1,
      plain_class ''Student'' ''role'' [''Person''] 2,
      plain_class ''Teacher'' ''role'' [''Person''] 3]"

definition genset_incomplete_partial :: genset where
  "genset_incomplete_partial =
     \<lparr>gs_name = ''G0'', gs_general = Some ''Person'', gs_specifics = Some [''Student''],
      gs_modifiers = Some [''complete'']\<rparr>"

definition genset_complete_disjoint :: genset where
  "genset_complete_disjoint =
     \<lparr>gs_name = ''G1'', gs_general = Some ''Person'',
      gs_specifics = Some [''Student'', ''Teacher''],
      gs_modifiers = Some [''complete'', ''disjoint'']\<rparr>"

definition genset_complete :: genset where
  "genset_complete =
     \<lparr>gs_name = ''G2'', gs_general = Some ''Person'',
      gs_specifics = Some [''Student'', ''Teacher'', ''Visitor''],
      gs_modifiers = Some [''complete'']\<rparr>"

definition customer_model :: "model_class list" where
  "customer_model =
     [plain_class ''Person'' ''kind'' [] 1,
      plain_class ''Organization'' ''kind'' [] 2,
      plain_class ''PersonalCustomer'' ''role'' [''Person'', ''Customer''] 3,
      plain_class ''Customer'' ''roleMixin'' [] 4]"

definition vehicle_model :: "model_class list" where
  "vehicle_model =
     [plain_class ''Person'' ''kind'' [] 1,
      plain_class ''Student'' ''role'' [''Person''] 2,
      plain_class ''Teacher'' ''role'' [''Person''] 3,
      plain_class ''Vehicle'' ''kind'' [] 4,
      plain_class ''Car'' ''subkind'' [''Vehicle''] 5,
      plain_class ''Rental'' ''role'' [''Vehicle''] 6]"

definition internal_mediation :: relation where
  "internal_mediation = \<lparr>rel_internal = Some True, rel_stereotype = Some ''mediation''\<rparr>"

definition marriage_model :: "model_class list" where
  "marriage_model =
     [container_class ''Marriage'' ''relator'' [''mediation''] 1,
      container_class ''Employment'' ''relator'' [''mediation''] 5]"

definition wedding_model :: "model_class list" where
  "wedding_model = [container_class ''Wedding'' ''relator'' [''mediation'', ''mediation''] 1]"

definition person_full :: "model_class list" where
  "person_full =
     [plain_class ''Person'' ''kind'' [] 1,
      plain_class ''Man'' ''subkind'' [''Person''] 2,
      plain_class ''Woman'' ''subkind'' [''Person''] 3,
      plain_class ''Student'' ''role'' [''Person''] 4,
      plain_class ''Teacher'' ''role'' [''Person''] 5,
      plain_class ''Child'' ''phase'' [''Person''] 6,
      plain_class ''Adult'' ''phase'' [''Person''] 7]"

definition color_mode :: model_class where
  "color_mode = plain_class ''Color'' ''mode'' [] 1"

definition skill_mode :: model_class where
  "skill_mode = container_class ''Skill'' ''mode'' [''characterization''] 2"

section \<open>Properties\<close>

subsection \<open>Evaluation of the primitives and of the example models\<close>

lemma field_get_simps [simp]:
  "field_get None dflt = dflt"
  "field_get (Some x) dflt = x"
  by (simp_all add: field_get_def)

lemma model_of_fields [simp]:
  "classes (model_of cs gs rs) = cs"
  "gensets (model_of cs gs rs) = gs"
  "relations (model_of cs gs rs) = rs"
  "complete_patterns (model_of cs gs rs) = []"
  "incomplete_patterns (model_of cs gs rs) = []"
  by (simp_all add: model_of_def init_def)

lemma plain_class_fields [simp]:
  "cls_name (plain_class n st ps l) = n"
  "cls_stereotype (plain_class n st ps l) = st"
  "cls_parents (plain_class n st ps l) = Some ps"
  "cls_body (plain_class n st ps l) = None"
  "cls_line (plain_class n st ps l) = l"
  by (simp_all add: plain_class_def)

lemma container_class_fields [simp]:
  "cls_name (container_class n st ms l) = n"
  "cls_stereotype (container_class n st ms l) = st"
  "cls_parents (container_class n st ms l) = Some []"
  "cls_body (container_class n st ms l) = Some (map (\<lambda>m. \<lparr>mem_stereotype = Some m\<rparr>) ms)"
  "cls_line (container_class n st ms l) = l"
  by (simp_all add: container_class_def)

subsection \<open>The genset matcher\<close>

lemma find_genset_loop_find:
  "find_genset_loop gs general_class specific_classes required forbidden =
     find (spec_qualifies general_class specific_classes required forbidden) gs"
  by (induction gs) (auto simp: spec_qualifies_def list_all_iff list_ex_iff)

text \<open>
  C2. For every model and every query, the matcher returns \<open>None\<close> exactly when no genset
  of the model qualifies in the specification's sense, and it returns a genset \<open>G\<close> exactly
  when \<open>G\<close> stands at a position of the genset list where it qualifies and no genset
  before that position does: the first qualifying genset in declaration order. An omitted
  modifier list counts as empty.
\<close>

theorem find_genset_first_qualifying:
  "(find_genset_for_classes self general_class specific_classes required forbidden = None \<longleftrightarrow>
      (\<forall>g \<in> set (gensets self).
         \<not> spec_qualifies general_class specific_classes (field_get required [])
             (field_get forbidden []) g)) \<and>
   (\<forall>G. find_genset_for_classes self general_class specific_classes required forbidden = Some G
        \<longleftrightarrow>
      (\<exists>i < length (gensets self).
         gensets self ! i = G \<and>
         spec_qualifies general_class specific_classes (field_get required [])
           (field_get forbidden []) G \<and>
         (\<forall>j < i. \<not> spec_qualifies general_class specific_classes (field_get required [])
                       (field_get forbidden []) (gensets self ! j))))"
  unfolding find_genset_for_classes_def find_genset_loop_find
  by (auto simp: find_None_iff find_Some_iff)

theorem find_genset_first_qualifying_witness:
  "find_genset_for_classes
       (model_of person_roles
          [genset_incomplete_partial, genset_complete_disjoint, genset_complete] [])
       ''Person'' [''Student'', ''Teacher''] (Some [''complete'']) (Some [''disjoint''])
     = Some genset_complete \<and>
   find_genset_for_classes
       (model_of person_roles [genset_incomplete_partial, genset_complete_disjoint] [])
       ''Person'' [''Student'', ''Teacher''] (Some [''complete'']) (Some [''disjoint''])
     = None"
proof -
  let ?v = "model_of person_roles
              [genset_incomplete_partial, genset_complete_disjoint, genset_complete] []"
  let ?w = "model_of person_roles [genset_incomplete_partial, genset_complete_disjoint] []"
  let ?q = "spec_qualifies ''Person'' [''Student'', ''Teacher'']
              (field_get (Some [''complete'']) []) (field_get (Some [''disjoint'']) [])"
  have q0: "\<not> ?q genset_incomplete_partial"
    by (simp add: spec_qualifies_def field_get_def genset_incomplete_partial_def)
  have q1: "\<not> ?q genset_complete_disjoint"
    by (simp add: spec_qualifies_def field_get_def genset_complete_disjoint_def)
  have q2: "?q genset_complete"
    by (simp add: spec_qualifies_def field_get_def genset_complete_def)
  have gv: "gensets ?v = [genset_incomplete_partial, genset_complete_disjoint, genset_complete]"
    and gw: "gensets ?w = [genset_incomplete_partial, genset_complete_disjoint]"
    by (simp_all add: model_of_def init_def field_get_def)
  have "\<forall>j<2. \<not> ?q (gensets ?v ! j)"
    using q0 q1 by (simp add: gv eval_nat_numeral All_less_Suc)
  then have "\<exists>i < length (gensets ?v). gensets ?v ! i = genset_complete \<and> ?q genset_complete \<and>
               (\<forall>j<i. \<not> ?q (gensets ?v ! j))"
    using q2 by (intro exI [of _ 2]) (simp add: gv)
  then have some: "find_genset_for_classes ?v ''Person'' [''Student'', ''Teacher'']
                     (Some [''complete'']) (Some [''disjoint'']) = Some genset_complete"
    using find_genset_first_qualifying [of ?v "''Person''" "[''Student'', ''Teacher'']"
        "Some [''complete'']" "Some [''disjoint'']"]
    by blast
  have "\<forall>g \<in> set (gensets ?w). \<not> ?q g"
    using q0 q1 by (simp add: gw)
  then have none: "find_genset_for_classes ?w ''Person'' [''Student'', ''Teacher'']
                     (Some [''complete'']) (Some [''disjoint'']) = None"
    using find_genset_first_qualifying [of ?w "''Person''" "[''Student'', ''Teacher'']"
        "Some [''complete'']" "Some [''disjoint'']"]
    by blast
  from some none show ?thesis by simp
qed

subsection \<open>Checkers only append verdicts\<close>

lemma reset_emit [simp]: "reset (emit cs ics self) = reset self"
  by (simp add: reset_def emit_def)

lemma reset_reset [simp]: "reset (reset self) = reset self"
  by (simp add: reset_def)

lemma emit_emit [simp]: "emit cs ics (emit cs' ics' self) = emit (cs' @ cs) (ics' @ ics) self"
  by (simp add: emit_def)

lemma emit_Nil [simp]: "emit [] [] self = self"
  by (simp add: emit_def)

lemma patterns_emit_reset [simp]:
  "complete_patterns (emit cs ics (reset self)) = cs"
  "incomplete_patterns (emit cs ics (reset self)) = ics"
  by (simp_all add: emit_def reset_def)

lemma patterns_emit [simp]:
  "complete_patterns (emit cs ics self) = complete_patterns self @ cs"
  "incomplete_patterns (emit cs ics self) = incomplete_patterns self @ ics"
  "classes (emit cs ics self) = classes self"
  "gensets (emit cs ics self) = gensets self"
  "relations (emit cs ics self) = relations self"
  by (simp_all add: emit_def)

lemma fields_reset [simp]:
  "complete_patterns (reset self) = []"
  "incomplete_patterns (reset self) = []"
  "classes (reset self) = classes self"
  "gensets (reset self) = gensets self"
  "relations (reset self) = relations self"
  by (simp_all add: reset_def)

lemma appenderD:
  "appender f \<Longrightarrow>
     f self = emit (complete_patterns (f (reset self))) (incomplete_patterns (f (reset self))) self"
  unfolding appender_def by (erule spec)

lemma appenderI:
  assumes "\<And>self. f self = emit (C (reset self)) (I (reset self)) self"
  shows "appender f"
  unfolding appender_def
proof
  fix self
  have "f (reset self) = emit (C (reset self)) (I (reset self)) (reset self)"
    using assms [of "reset self"] by simp
  then have "complete_patterns (f (reset self)) = C (reset self)"
    and "incomplete_patterns (f (reset self)) = I (reset self)"
    by simp_all
  then show "f self = emit (complete_patterns (f (reset self)))
                        (incomplete_patterns (f (reset self))) self"
    using assms [of self] by simp
qed

lemma appender_comp:
  assumes f: "appender f" and g: "appender g"
  shows "appender (\<lambda>self. g (f self))"
proof (rule appenderI [where C = "\<lambda>s. complete_patterns (f s) @ complete_patterns (g s)"
      and I = "\<lambda>s. incomplete_patterns (f s) @ incomplete_patterns (g s)"])
  fix self
  define a b where "a = complete_patterns (f (reset self))"
    and "b = incomplete_patterns (f (reset self))"
  have f1: "f self = emit a b self"
    unfolding a_def b_def by (rule appenderD [OF f])
  have "g (emit a b self) =
      emit (complete_patterns (g (reset self))) (incomplete_patterns (g (reset self)))
        (emit a b self)"
    using appenderD [OF g, of "emit a b self"] by simp
  then show "g (f self) =
      emit (complete_patterns (f (reset self)) @ complete_patterns (g (reset self)))
           (incomplete_patterns (f (reset self)) @ incomplete_patterns (g (reset self))) self"
    unfolding f1 by (simp add: a_def b_def)
qed

lemma fold_emit:
  assumes "\<And>c. appender (f c)"
  shows "fold f cs self =
           emit (concat (map (\<lambda>c. complete_patterns (f c (reset self))) cs))
                (concat (map (\<lambda>c. incomplete_patterns (f c (reset self))) cs)) self"
proof (induction cs arbitrary: self)
  case Nil
  show ?case by simp
next
  case (Cons c cs)
  define a b where "a = complete_patterns (f c (reset self))"
    and "b = incomplete_patterns (f c (reset self))"
  have step: "f c self = emit a b self"
    unfolding a_def b_def by (rule appenderD [OF assms])
  have "fold f (c # cs) self = fold f cs (emit a b self)"
    by (simp add: step)
  also have "\<dots> = emit (concat (map (\<lambda>c. complete_patterns (f c (reset self))) cs))
                      (concat (map (\<lambda>c. incomplete_patterns (f c (reset self))) cs))
                      (emit a b self)"
    using Cons.IH [of "emit a b self"] by simp
  finally show ?case
    by (simp add: a_def b_def)
qed

lemma fold_emitted_complete:
  assumes "\<And>c. appender (f c)"
  shows "set (complete_patterns (fold f cs (reset self))) =
           (\<Union>c \<in> set cs. set (complete_patterns (f c (reset self))))"
  by (subst fold_emit [OF assms]) simp

lemma fold_emitted_incomplete:
  assumes "\<And>c. appender (f c)"
  shows "set (incomplete_patterns (fold f cs (reset self))) =
           (\<Union>c \<in> set cs. set (incomplete_patterns (f c (reset self))))"
  by (subst fold_emit [OF assms]) simp

lemma fold_keeps_incomplete:
  assumes "\<And>c. appender (f c)" and "c \<in> set cs"
    and "d \<in> set (incomplete_patterns (f c (reset self)))"
  shows "d \<in> set (incomplete_patterns (fold f cs self))"
  using assms(2,3) by (subst fold_emit [OF assms(1)]) auto

lemma fold_keeps_complete:
  assumes "\<And>c. appender (f c)" and "c \<in> set cs"
    and "d \<in> set (complete_patterns (f c (reset self)))"
  shows "d \<in> set (complete_patterns (fold f cs self))"
  using assms(2,3) by (subst fold_emit [OF assms(1)]) auto

lemmas body_defs =
  Let_def find_genset_for_classes_def append_complete_def append_incomplete_def
  emit_def reset_def

lemma appender_subkind_body: "appender (subkind_body kind)"
  by (simp add: appender_def subkind_body_def body_defs split: option.splits)

lemma appender_role_body: "appender (role_body kind)"
  by (simp add: appender_def role_body_def body_defs split: option.splits)

lemma appender_phase_body: "appender (phase_body kind)"
  by (simp add: appender_def phase_body_def body_defs split: option.splits)

lemma appender_relator_body: "appender (relator_body relator)"
  by (simp add: appender_def relator_body_def body_defs)

lemma appender_mode_body: "appender (mode_body mode)"
  by (simp add: appender_def mode_body_def body_defs split: prod.splits)

lemma appender_rolemixin_body: "appender (rolemixin_body rolemixin)"
  by (simp add: appender_def rolemixin_body_def body_defs split: option.splits)

lemma appender_loop:
  assumes "\<And>c. appender (f c)"
  shows "appender (\<lambda>self. fold f (sel (classes self)) self)"
  by (rule appenderI [where C = "\<lambda>r. concat (map (\<lambda>c. complete_patterns (f c r)) (sel (classes r)))"
        and I = "\<lambda>r. concat (map (\<lambda>c. incomplete_patterns (f c r)) (sel (classes r)))"])
     (subst fold_emit [OF assms], simp)

lemma appender_checkers:
  "appender validate_subkind_pattern"
  "appender validate_role_pattern"
  "appender validate_phase_pattern"
  "appender validate_relator_pattern"
  "appender validate_mode_pattern"
  "appender validate_rolemixin_pattern"
  unfolding validate_subkind_pattern_def validate_role_pattern_def validate_phase_pattern_def
    validate_relator_pattern_def validate_mode_pattern_def validate_rolemixin_pattern_def
    Let_def
  by (rule appender_loop, rule appender_subkind_body appender_role_body appender_phase_body
      appender_relator_body appender_mode_body appender_rolemixin_body)+

subsection \<open>RoleMixin with too few roles\<close>

text \<open>
  C3. For every roleMixin of the model with fewer than two roles listing it among their
  parents, the iteration of the RoleMixin checker for it appends exactly one Incomplete
  verdict, whose error states the minimum of two roles and whose suggestion is to add
  specializing roles; the verdict is among the results of the checker. The verdict is the
  same whatever the gensets of the model are (no genset is consulted), and its suggestion
  does not start as the \<open>disjoint complete genset\<close> template does.
\<close>

theorem rolemixin_too_few_roles:
  assumes "rolemixin \<in> set (classes self)"
    and "cls_stereotype rolemixin = ''roleMixin''"
    and "length (specializing ''role'' (cls_name rolemixin) (classes self)) < 2"
  shows "let verdict =
             [(''type'', PStr ''RoleMixin Pattern''),
              (''rolemixin'', PStr (cls_name rolemixin)),
              (''error'', PStr (''Precisa de pelo menos 2 roles especializando ''
                 @ cls_name rolemixin)),
              (''suggestion'', PStr (''Adicione roles que especializam '' @ cls_name rolemixin)),
              (''line'', PInt (cls_line rolemixin))]
         in (\<forall>gs. rolemixin_body rolemixin (self\<lparr>gensets := gs\<rparr>)
                     = append_incomplete verdict (self\<lparr>gensets := gs\<rparr>) \<and>
                   verdict \<in> set (incomplete_patterns
                                    (validate_rolemixin_pattern (self\<lparr>gensets := gs\<rparr>)))) \<and>
            \<not> prefix ''Adicione: disjoint complete genset''
                 (''Adicione roles que especializam '' @ cls_name rolemixin)"
proof -
  define verdict where "verdict =
             [(''type'', PStr ''RoleMixin Pattern''),
              (''rolemixin'', PStr (cls_name rolemixin)),
              (''error'', PStr (''Precisa de pelo menos 2 roles especializando ''
                 @ cls_name rolemixin)),
              (''suggestion'', PStr (''Adicione roles que especializam '' @ cls_name rolemixin)),
              (''line'', PInt (cls_line rolemixin))]"
  have body: "rolemixin_body rolemixin s = append_incomplete verdict s"
    if "classes s = classes self" for s
    using assms(3) that
    by (simp add: rolemixin_body_def specializing_def verdict_def Let_def)
  have "verdict \<in> set (incomplete_patterns (validate_rolemixin_pattern (self\<lparr>gensets := gs\<rparr>)))"
    for gs
    unfolding validate_rolemixin_pattern_def Let_def
  proof (rule fold_keeps_incomplete [OF appender_rolemixin_body, of rolemixin])
    show "rolemixin \<in> set (filter (\<lambda>c. cls_stereotype c = ''roleMixin'')
                              (classes (self\<lparr>gensets := gs\<rparr>)))"
      using assms(1,2) by simp
    show "verdict \<in> set (incomplete_patterns
                           (rolemixin_body rolemixin (reset (self\<lparr>gensets := gs\<rparr>))))"
      by (simp add: body append_incomplete_def)
  qed
  moreover have "rolemixin_body rolemixin (self\<lparr>gensets := gs\<rparr>)
                   = append_incomplete verdict (self\<lparr>gensets := gs\<rparr>)" for gs
    by (simp add: body)
  moreover have "\<not> prefix ''Adicione: disjoint complete genset''
                     (''Adicione roles que especializam '' @ cls_name rolemixin)"
    by simp
  ultimately show ?thesis
    unfolding Let_def verdict_def by blast
qed

theorem rolemixin_too_few_roles_witness:
  "plain_class ''Customer'' ''roleMixin'' [] 4 \<in> set (classes (model_of customer_model [] [])) \<and>
   length (specializing ''role'' ''Customer'' (classes (model_of customer_model [] []))) = 1 \<and>
   (\<forall>gs. [(''type'', PStr ''RoleMixin Pattern''),
          (''rolemixin'', PStr ''Customer''),
          (''error'', PStr ''Precisa de pelo menos 2 roles especializando Customer''),
          (''suggestion'', PStr ''Adicione roles que especializam Customer''),
          (''line'', PInt 4)]
        \<in> set (incomplete_patterns
                 (validate_rolemixin_pattern (model_of customer_model [] []\<lparr>gensets := gs\<rparr>))))"
proof -
  let ?v = "model_of customer_model [] []"
  let ?c = "plain_class ''Customer'' ''roleMixin'' [] 4"
  have h1: "?c \<in> set (classes ?v)"
    by (simp add: model_of_def init_def field_get_def customer_model_def)
  have h2: "cls_stereotype ?c = ''roleMixin''"
    by (simp add: plain_class_def)
  have n: "cls_name ?c = ''Customer''" "cls_line ?c = 4"
    by (simp_all add: plain_class_def)
  have l: "length (specializing ''role'' ''Customer'' (classes ?v)) = 1"
    by (simp add: model_of_def init_def field_get_def customer_model_def specializing_def
        plain_class_def)
  then have h3: "length (specializing ''role'' (cls_name ?c) (classes ?v)) < 2"
    by (simp add: n)
  show ?thesis
    using rolemixin_too_few_roles [OF h1 h2 h3] h1 l
    by (simp add: n Let_def)
qed

subsection \<open>Kinds with too few specializers\<close>

lemma subkind_body_verdicts:
  assumes "d \<in> set (complete_patterns (subkind_body k (reset self)))
             \<union> set (incomplete_patterns (subkind_body k (reset self)))"
  shows "map_of d ''kind'' = Some (PStr (cls_name k)) \<and>
         2 \<le> length (specializing ''subkind'' (cls_name k) (classes self))"
  using assms
  by (auto simp: subkind_body_def specializing_def body_defs split: if_splits option.splits)

lemma role_body_verdicts:
  assumes "d \<in> set (complete_patterns (role_body k (reset self)))
             \<union> set (incomplete_patterns (role_body k (reset self)))"
  shows "map_of d ''kind'' = Some (PStr (cls_name k)) \<and>
         2 \<le> length (specializing ''role'' (cls_name k) (classes self))"
  using assms
  by (auto simp: role_body_def specializing_def body_defs split: if_splits option.splits)

lemma phase_body_verdicts:
  assumes "d \<in> set (complete_patterns (phase_body k (reset self)))
             \<union> set (incomplete_patterns (phase_body k (reset self)))"
  shows "map_of d ''kind'' = Some (PStr (cls_name k)) \<and>
         2 \<le> length (specializing ''phase'' (cls_name k) (classes self))"
  using assms
  by (auto simp: phase_body_def specializing_def body_defs split: if_splits option.splits)

lemma loop_verdicts:
  assumes app: "\<And>c. appender (f c)"
    and body: "\<And>k d. d \<in> set (complete_patterns (f k (reset self)))
                         \<union> set (incomplete_patterns (f k (reset self))) \<Longrightarrow>
                 map_of d ''kind'' = Some (PStr (cls_name k)) \<and>
                 2 \<le> length (specializing st (cls_name k) (classes self))"
    and few: "length (specializing st name (classes self)) < 2"
    and d: "d \<in> set (complete_patterns (fold f cs (reset self)))
              \<union> set (incomplete_patterns (fold f cs (reset self)))"
  shows "map_of d ''kind'' \<noteq> Some (PStr name)"
proof
  assume eq: "map_of d ''kind'' = Some (PStr name)"
  from d obtain k where "d \<in> set (complete_patterns (f k (reset self)))
                         \<union> set (incomplete_patterns (f k (reset self)))"
    unfolding fold_emitted_complete [OF app] fold_emitted_incomplete [OF app] by blast
  from body [OF this] eq few show False by simp
qed

lemma subkind_no_verdict:
  assumes few: "length (specializing ''subkind'' name (classes self)) < 2"
    and d: "d \<in> set (complete_patterns (validate_subkind_pattern (reset self)))
              \<union> set (incomplete_patterns (validate_subkind_pattern (reset self)))"
  shows "map_of d ''kind'' \<noteq> Some (PStr name)"
proof (rule loop_verdicts [where f = subkind_body and st = "''subkind''" and self = self
      and cs = "filter (\<lambda>c. cls_stereotype c = ''kind'') (classes self)"])
  show "appender (subkind_body c)" for c
    by (rule appender_subkind_body)
  show "map_of d ''kind'' = Some (PStr (cls_name k)) \<and>
        2 \<le> length (specializing ''subkind'' (cls_name k) (classes self))"
    if "d \<in> set (complete_patterns (subkind_body k (reset self)))
          \<union> set (incomplete_patterns (subkind_body k (reset self)))" for k d
    using that by (rule subkind_body_verdicts)
  show "length (specializing ''subkind'' name (classes self)) < 2"
    by (rule few)
  show "d \<in> set (complete_patterns
                   (fold subkind_body (filter (\<lambda>c. cls_stereotype c = ''kind'') (classes self))
                      (reset self)))
          \<union> set (incomplete_patterns
                   (fold subkind_body (filter (\<lambda>c. cls_stereotype c = ''kind'') (classes self))
                      (reset self)))"
    using d by (simp add: validate_subkind_pattern_def)
qed

lemma role_no_verdict:
  assumes few: "length (specializing ''role'' name (classes self)) < 2"
    and d: "d \<in> set (complete_patterns (validate_role_pattern (reset self)))
              \<union> set (incomplete_patterns (validate_role_pattern (reset self)))"
  shows "map_of d ''kind'' \<noteq> Some (PStr name)"
proof (rule loop_verdicts [where f = role_body and st = "''role''" and self = self
      and cs = "filter (\<lambda>c. cls_stereotype c = ''kind'') (classes self)"])
  show "appender (role_body c)" for c
    by (rule appender_role_body)
  show "map_of d ''kind'' = Some (PStr (cls_name k)) \<and>
        2 \<le> length (specializing ''role'' (cls_name k) (classes self))"
    if "d \<in> set (complete_patterns (role_body k (reset self)))
          \<union> set (incomplete_patterns (role_body k (reset self)))" for k d
    using that by (rule role_body_verdicts)
  show "length (specializing ''role'' name (classes self)) < 2"
    by (rule few)
  show "d \<in> set (complete_patterns
                   (fold role_body (filter (\<lambda>c. cls_stereotype c = ''kind'') (classes self))
                      (reset self)))
          \<union> set (incomplete_patterns
                   (fold role_body (filter (\<lambda>c. cls_stereotype c = ''kind'') (classes self))
                      (reset self)))"
    using d by (simp add: validate_role_pattern_def)
qed

lemma phase_no_verdict:
  assumes few: "length (specializing ''phase'' name (classes self)) < 2"
    and d: "d \<in> set (complete_patterns (validate_phase_pattern (reset self)))
              \<union> set (incomplete_patterns (validate_phase_pattern (reset self)))"
  shows "map_of d ''kind'' \<noteq> Some (PStr name)"
proof (rule loop_verdicts [where f = phase_body and st = "''phase''" and self = self
      and cs = "filter (\<lambda>c. cls_stereotype c = ''kind'') (classes self)"])
  show "appender (phase_body c)" for c
    by (rule appender_phase_body)
  show "map_of d ''kind'' = Some (PStr (cls_name k)) \<and>
        2 \<le> length (specializing ''phase'' (cls_name k) (classes self))"
    if "d \<in> set (complete_patterns (phase_body k (reset self)))
          \<union> set (incomplete_patterns (phase_body k (reset self)))" for k d
    using that by (rule phase_body_verdicts)
  show "length (specializing ''phase'' name (classes self)) < 2"
    by (rule few)
  show "d \<in> set (complete_patterns
                   (fold phase_body (filter (\<lambda>c. cls_stereotype c = ''kind'') (classes self))
                      (reset self)))
          \<union> set (incomplete_patterns
                   (fold phase_body (filter (\<lambda>c. cls_stereotype c = ''kind'') (classes self))
                      (reset self)))"
    using d by (simp add: validate_phase_pattern_def)
qed

text \<open>
  C6. For every class (in particular every kind) with fewer than two subkinds listing its
  name among their parents, the iteration of the Subkind checker for it leaves the
  validator unchanged, and no verdict the Subkind checker emits, complete or incomplete,
  carries that name in its \<open>kind\<close> field. The same holds for the Role checker with roles
  and for the Phase checker with phases.
\<close>

theorem too_few_specializers_no_verdict:
  "(length (specializing ''subkind'' (cls_name kind) (classes self)) < 2 \<longrightarrow>
      subkind_body kind self = self \<and>
      (\<forall>d \<in> set (complete_patterns (validate_subkind_pattern (reset self)))
            \<union> set (incomplete_patterns (validate_subkind_pattern (reset self))).
         map_of d ''kind'' \<noteq> Some (PStr (cls_name kind)))) \<and>
   (length (specializing ''role'' (cls_name kind) (classes self)) < 2 \<longrightarrow>
      role_body kind self = self \<and>
      (\<forall>d \<in> set (complete_patterns (validate_role_pattern (reset self)))
            \<union> set (incomplete_patterns (validate_role_pattern (reset self))).
         map_of d ''kind'' \<noteq> Some (PStr (cls_name kind)))) \<and>
   (length (specializing ''phase'' (cls_name kind) (classes self)) < 2 \<longrightarrow>
      phase_body kind self = self \<and>
      (\<forall>d \<in> set (complete_patterns (validate_phase_pattern (reset self)))
            \<union> set (incomplete_patterns (validate_phase_pattern (reset self))).
         map_of d ''kind'' \<noteq> Some (PStr (cls_name kind))))"
proof (intro conjI impI ballI)
  assume "length (specializing ''subkind'' (cls_name kind) (classes self)) < 2"
  then show "subkind_body kind self = self"
    by (simp add: subkind_body_def specializing_def Let_def)
next
  assume "length (specializing ''role'' (cls_name kind) (classes self)) < 2"
  then show "role_body kind self = self"
    by (simp add: role_body_def specializing_def Let_def)
next
  assume "length (specializing ''phase'' (cls_name kind) (classes self)) < 2"
  then show "phase_body kind self = self"
    by (simp add: phase_body_def specializing_def Let_def)
next
  fix d
  assume "length (specializing ''subkind'' (cls_name kind) (classes self)) < 2"
    and "d \<in> set (complete_patterns (validate_subkind_pattern (reset self)))
            \<union> set (incomplete_patterns (validate_subkind_pattern (reset self)))"
  then show "map_of d ''kind'' \<noteq> Some (PStr (cls_name kind))"
    by (rule subkind_no_verdict)
next
  fix d
  assume "length (specializing ''role'' (cls_name kind) (classes self)) < 2"
    and "d \<in> set (complete_patterns (validate_role_pattern (reset self)))
            \<union> set (incomplete_patterns (validate_role_pattern (reset self)))"
  then show "map_of d ''kind'' \<noteq> Some (PStr (cls_name kind))"
    by (rule role_no_verdict)
next
  fix d
  assume "length (specializing ''phase'' (cls_name kind) (classes self)) < 2"
    and "d \<in> set (complete_patterns (validate_phase_pattern (reset self)))
            \<union> set (incomplete_patterns (validate_phase_pattern (reset self)))"
  then show "map_of d ''kind'' \<noteq> Some (PStr (cls_name kind))"
    by (rule phase_no_verdict)
qed

theorem too_few_specializers_no_verdict_witness:
  "length (specializing ''subkind'' ''Vehicle'' (classes (model_of vehicle_model [] []))) = 1 \<and>
   length (specializing ''role'' ''Vehicle'' (classes (model_of vehicle_model [] []))) = 1 \<and>
   length (specializing ''phase'' ''Vehicle'' (classes (model_of vehicle_model [] []))) = 0 \<and>
   subkind_body (plain_class ''Vehicle'' ''kind'' [] 4) (model_of vehicle_model [] [])
     = model_of vehicle_model [] [] \<and>
   role_body (plain_class ''Vehicle'' ''kind'' [] 4) (model_of vehicle_model [] [])
     = model_of vehicle_model [] [] \<and>
   phase_body (plain_class ''Vehicle'' ''kind'' [] 4) (model_of vehicle_model [] [])
     = model_of vehicle_model [] [] \<and>
   incomplete_patterns (validate_role_pattern (reset (model_of vehicle_model [] []))) =
     [[(''type'', PStr ''Role Pattern''),
       (''kind'', PStr ''Person''),
       (''roles'', PList [''Student'', ''Teacher'']),
       (''error'', PStr ''Falta genset complete (sem disjoint)''),
       (''suggestion'', PStr
          ''Adicione: complete genset Person_Role_Genset { general Person specifics Student, Teacher }''),
       (''line'', PInt 1)]] \<and>
   \<not> (\<exists>d \<in> set (complete_patterns (validate_role_pattern (reset (model_of vehicle_model [] []))))
            \<union> set (incomplete_patterns
                     (validate_role_pattern (reset (model_of vehicle_model [] [])))).
         map_of d ''kind'' = Some (PStr ''Vehicle''))"
proof -
  let ?v = "model_of vehicle_model [] []"
  let ?k = "plain_class ''Vehicle'' ''kind'' [] 4"
  have l: "length (specializing ''subkind'' ''Vehicle'' (classes ?v)) = 1"
    "length (specializing ''role'' ''Vehicle'' (classes ?v)) = 1"
    "length (specializing ''phase'' ''Vehicle'' (classes ?v)) = 0"
    by (simp_all add: vehicle_model_def specializing_def)
  have r: "incomplete_patterns (validate_role_pattern (reset ?v)) =
     [[(''type'', PStr ''Role Pattern''),
       (''kind'', PStr ''Person''),
       (''roles'', PList [''Student'', ''Teacher'']),
       (''error'', PStr ''Falta genset complete (sem disjoint)''),
       (''suggestion'', PStr
          ''Adicione: complete genset Person_Role_Genset { general Person specifics Student, Teacher }''),
       (''line'', PInt 1)]]"
    by (simp add: validate_role_pattern_def role_body_def find_genset_for_classes_def
        append_complete_def append_incomplete_def Let_def reset_def vehicle_model_def)
  have "\<not> (\<exists>d \<in> set (complete_patterns (validate_role_pattern (reset ?v)))
            \<union> set (incomplete_patterns (validate_role_pattern (reset ?v))).
         map_of d ''kind'' = Some (PStr ''Vehicle''))"
    using too_few_specializers_no_verdict [of ?k ?v] l(2) by simp
  moreover have "subkind_body ?k ?v = ?v" "role_body ?k ?v = ?v" "phase_body ?k ?v = ?v"
    using too_few_specializers_no_verdict [of ?k ?v] l by simp_all
  ultimately show ?thesis
    using l r by blast
qed

subsection \<open>Role pattern and disjoint gensets\<close>

text \<open>
  C4. For every kind of the model with at least two specializing roles: the matcher, as
  the Role checker queries it, never returns a genset that carries \<open>disjoint\<close>; and when
  every genset that has the kind as general, covers the roles and carries \<open>complete\<close>
  also carries \<open>disjoint\<close>, no genset is found, the iteration for the kind appends
  exactly the Incomplete verdict of the Role Pattern, and that verdict is among the
  checker's results.
\<close>

theorem role_pattern_rejects_disjoint:
  assumes "kind \<in> set (classes self)"
    and "cls_stereotype kind = ''kind''"
    and "2 \<le> length (specializing ''role'' (cls_name kind) (classes self))"
    and "\<forall>g \<in> set (gensets self).
           spec_qualifies (cls_name kind)
             (map cls_name (specializing ''role'' (cls_name kind) (classes self)))
             [''complete''] [] g \<longrightarrow>
           ''disjoint'' \<in> set (field_get (gs_modifiers g) [])"
  shows "let roles = map cls_name (specializing ''role'' (cls_name kind) (classes self));
             verdict =
               [(''type'', PStr ''Role Pattern''),
                (''kind'', PStr (cls_name kind)),
                (''roles'', PList roles),
                (''error'', PStr ''Falta genset complete (sem disjoint)''),
                (''suggestion'', PStr (''Adicione: complete genset '' @ cls_name kind
                   @ ''_Role_Genset { general '' @ cls_name kind @ '' specifics ''
                   @ join '', '' roles @ '' }'')),
                (''line'', PInt (cls_line kind))]
         in (\<forall>g. ''disjoint'' \<in> set (field_get (gs_modifiers g) []) \<longrightarrow>
                  find_genset_for_classes self (cls_name kind) roles
                    (Some [''complete'']) (Some [''disjoint'']) \<noteq> Some g) \<and>
            find_genset_for_classes self (cls_name kind) roles
              (Some [''complete'']) (Some [''disjoint'']) = None \<and>
            role_body kind self = append_incomplete verdict self \<and>
            verdict \<in> set (incomplete_patterns (validate_role_pattern self))"
proof -
  define roles where "roles = map cls_name (specializing ''role'' (cls_name kind) (classes self))"
  define verdict where "verdict =
               [(''type'', PStr ''Role Pattern''),
                (''kind'', PStr (cls_name kind)),
                (''roles'', PList roles),
                (''error'', PStr ''Falta genset complete (sem disjoint)''),
                (''suggestion'', PStr (''Adicione: complete genset '' @ cls_name kind
                   @ ''_Role_Genset { general '' @ cls_name kind @ '' specifics ''
                   @ join '', '' roles @ '' }'')),
                (''line'', PInt (cls_line kind))]"
  let ?found = "\<lambda>s. find_genset_for_classes s (cls_name kind) roles
                       (Some [''complete'']) (Some [''disjoint''])"
  have found: "?found s = find (spec_qualifies (cls_name kind) roles [''complete''] [''disjoint''])
                            (gensets s)" for s
    by (simp add: find_genset_for_classes_def find_genset_loop_find)
  have rejected: "?found self \<noteq> Some g" if "''disjoint'' \<in> set (field_get (gs_modifiers g) [])" for g
    using that by (auto simp: found find_Some_iff spec_qualifies_def)
  have "\<forall>g \<in> set (gensets self).
           spec_qualifies (cls_name kind) roles [''complete''] [] g \<longrightarrow>
           ''disjoint'' \<in> set (field_get (gs_modifiers g) [])"
    using assms(4) by (simp add: roles_def)
  then have none: "?found self = None"
    by (auto simp: found find_None_iff spec_qualifies_def)
  have body: "role_body kind s = append_incomplete verdict s"
    if "classes s = classes self" "gensets s = gensets self" for s
  proof -
    have "?found s = None"
      using none that(2) by (simp add: found)
    then show ?thesis
      using assms(3) that(1)
      by (simp add: role_body_def Let_def verdict_def roles_def specializing_def)
  qed
  have "verdict \<in> set (incomplete_patterns (validate_role_pattern self))"
    unfolding validate_role_pattern_def Let_def
  proof (rule fold_keeps_incomplete [OF appender_role_body, of kind])
    show "kind \<in> set (filter (\<lambda>c. cls_stereotype c = ''kind'') (classes self))"
      using assms(1,2) by simp
    show "verdict \<in> set (incomplete_patterns (role_body kind (reset self)))"
      by (simp add: body append_incomplete_def)
  qed
  with rejected none body [of self] show ?thesis
    unfolding Let_def roles_def [symmetric] verdict_def [symmetric] by blast
qed

theorem role_pattern_rejects_disjoint_witness:
  "plain_class ''Person'' ''kind'' [] 1 \<in> set (classes (model_of person_roles [genset_complete_disjoint] [])) \<and>
   map cls_name (specializing ''role'' ''Person''
      (classes (model_of person_roles [genset_complete_disjoint] []))) = [''Student'', ''Teacher''] \<and>
   spec_qualifies ''Person'' [''Student'', ''Teacher''] [''complete''] [] genset_complete_disjoint \<and>
   ''disjoint'' \<in> set (field_get (gs_modifiers genset_complete_disjoint) []) \<and>
   find_genset_for_classes (model_of person_roles [genset_complete_disjoint] []) ''Person''
     [''Student'', ''Teacher''] (Some [''complete'']) (Some [''disjoint'']) = None \<and>
   [(''type'', PStr ''Role Pattern''),
    (''kind'', PStr ''Person''),
    (''roles'', PList [''Student'', ''Teacher'']),
    (''error'', PStr ''Falta genset complete (sem disjoint)''),
    (''suggestion'', PStr
       ''Adicione: complete genset Person_Role_Genset { general Person specifics Student, Teacher }''),
    (''line'', PInt 1)]
     \<in> set (incomplete_patterns
              (validate_role_pattern (model_of person_roles [genset_complete_disjoint] [])))"
proof -
  let ?v = "model_of person_roles [genset_complete_disjoint] []"
  let ?k = "plain_class ''Person'' ''kind'' [] 1"
  have n: "cls_stereotype ?k = ''kind''"
    by simp
  have h1: "?k \<in> set (classes ?v)"
    by (simp add: person_roles_def)
  have r: "map cls_name (specializing ''role'' ''Person'' (classes ?v)) = [''Student'', ''Teacher'']"
    by (simp add: person_roles_def specializing_def)
  have h3: "2 \<le> length (specializing ''role'' (cls_name ?k) (classes ?v))"
    by (simp add: person_roles_def specializing_def)
  have q: "spec_qualifies ''Person'' [''Student'', ''Teacher''] [''complete''] []
             genset_complete_disjoint"
    and dj: "''disjoint'' \<in> set (field_get (gs_modifiers genset_complete_disjoint) [])"
    by (simp_all add: spec_qualifies_def genset_complete_disjoint_def)
  have h4: "\<forall>g \<in> set (gensets ?v).
           spec_qualifies (cls_name ?k)
             (map cls_name (specializing ''role'' (cls_name ?k) (classes ?v)))
             [''complete''] [] g \<longrightarrow>
           ''disjoint'' \<in> set (field_get (gs_modifiers g) [])"
    using dj by simp
  show ?thesis
    using role_pattern_rejects_disjoint [OF h1 n h3 h4] h1 r q dj
    by (simp add: Let_def)
qed

subsection \<open>Relator pattern\<close>

lemma relator_member_loop_filter:
  "relator_member_loop body acc = acc @ filter (\<lambda>m. mem_stereotype m = Some ''mediation'') body"
  unfolding relator_member_loop_def
  by (induction body arbitrary: acc) simp_all

lemma relator_med_fold_length:
  "length (fold (\<lambda>med acc. case cls_body relator of
                        None \<Rightarrow> acc
                      | Some body \<Rightarrow> if body = [] then acc else relator_member_loop body acc)
             meds acc)
   = length acc + length meds * length (body_mediations relator)"
  by (induction meds arbitrary: acc)
     (auto simp: body_mediations_def relator_member_loop_filter split: option.splits)

lemma relator_med_loop_length:
  "length (relator_med_loop relator meds) = length meds * length (body_mediations relator)"
  unfolding relator_med_loop_def by (simp add: relator_med_fold_length)

text \<open>
  C10. For every relator, the count the Relator checker works with is the number of
  relations of the model that are internal and have stereotype \<open>mediation\<close> multiplied
  by the number of members of the relator's body with stereotype \<open>mediation\<close>: the
  iteration for the relator appends the Complete verdict with that count when it is at
  least 2 and the Incomplete verdict with that count otherwise, and for a relator of the
  model the verdict is among the checker's results. In particular, when the model has no
  internal mediation relation, every relator of the model gets the Incomplete verdict with
  count 0, whatever its body holds.
\<close>

theorem relator_count_is_product:
  "let n = length (internal_mediations (relations self));
       m = length (body_mediations relator);
       complete_verdict =
         [(''type'', PStr ''Relator Pattern''),
          (''relator'', PStr (cls_name relator)),
          (''mediations'', PInt (int (n * m))),
          (''line'', PInt (cls_line relator))];
       incomplete_verdict =
         [(''type'', PStr ''Relator Pattern''),
          (''relator'', PStr (cls_name relator)),
          (''mediations'', PInt (int (n * m))),
          (''error'', PStr (''Relator deve ter pelo menos 2 media''
             @ [CHR 0xE7, CHR 0xF5] @ ''es (tem '' @ str_int (int (n * m)) @ '')'')),
          (''suggestion'', PStr (''Adicione rela'' @ [CHR 0xE7, CHR 0xF5]
             @ ''es @mediation dentro do relator '' @ cls_name relator)),
          (''line'', PInt (cls_line relator))];
       zero_verdict =
         [(''type'', PStr ''Relator Pattern''),
          (''relator'', PStr (cls_name relator)),
          (''mediations'', PInt 0),
          (''error'', PStr (''Relator deve ter pelo menos 2 media''
             @ [CHR 0xE7, CHR 0xF5] @ ''es (tem 0)'')),
          (''suggestion'', PStr (''Adicione rela'' @ [CHR 0xE7, CHR 0xF5]
             @ ''es @mediation dentro do relator '' @ cls_name relator)),
          (''line'', PInt (cls_line relator))]
   in relator_body relator self =
        (if 2 \<le> n * m then append_complete complete_verdict self
         else append_incomplete incomplete_verdict self) \<and>
      (relator \<in> set (classes self) \<and> cls_stereotype relator = ''relator'' \<longrightarrow>
         (if 2 \<le> n * m
          then complete_verdict \<in> set (complete_patterns (validate_relator_pattern self))
          else incomplete_verdict \<in> set (incomplete_patterns (validate_relator_pattern self))) \<and>
         (n = 0 \<longrightarrow>
            zero_verdict \<in> set (incomplete_patterns (validate_relator_pattern self))))"
proof -
  define n m where "n = length (internal_mediations (relations self))"
    and "m = length (body_mediations relator)"
  define complete_verdict where "complete_verdict =
         [(''type'', PStr ''Relator Pattern''),
          (''relator'', PStr (cls_name relator)),
          (''mediations'', PInt (int (n * m))),
          (''line'', PInt (cls_line relator))]"
  define incomplete_verdict where "incomplete_verdict =
         [(''type'', PStr ''Relator Pattern''),
          (''relator'', PStr (cls_name relator)),
          (''mediations'', PInt (int (n * m))),
          (''error'', PStr (''Relator deve ter pelo menos 2 media''
             @ [CHR 0xE7, CHR 0xF5] @ ''es (tem '' @ str_int (int (n * m)) @ '')'')),
          (''suggestion'', PStr (''Adicione rela'' @ [CHR 0xE7, CHR 0xF5]
             @ ''es @mediation dentro do relator '' @ cls_name relator)),
          (''line'', PInt (cls_line relator))]"
  define zero_verdict where "zero_verdict =
         [(''type'', PStr ''Relator Pattern''),
          (''relator'', PStr (cls_name relator)),
          (''mediations'', PInt 0),
          (''error'', PStr (''Relator deve ter pelo menos 2 media''
             @ [CHR 0xE7, CHR 0xF5] @ ''es (tem 0)'')),
          (''suggestion'', PStr (''Adicione rela'' @ [CHR 0xE7, CHR 0xF5]
             @ ''es @mediation dentro do relator '' @ cls_name relator)),
          (''line'', PInt (cls_line relator))]"
  have body: "relator_body relator s =
        (if 2 \<le> n * m then append_complete complete_verdict s
         else append_incomplete incomplete_verdict s)"
    if "relations s = relations self" for s
    using that
    by (simp add: relator_body_def Let_def relator_med_loop_length n_def m_def
        internal_mediations_def complete_verdict_def incomplete_verdict_def)
  have checker: "if 2 \<le> n * m
          then complete_verdict \<in> set (complete_patterns (validate_relator_pattern self))
          else incomplete_verdict \<in> set (incomplete_patterns (validate_relator_pattern self))"
    if "relator \<in> set (classes self)" "cls_stereotype relator = ''relator''"
  proof -
    have mem: "relator \<in> set (filter (\<lambda>c. cls_stereotype c = ''relator'') (classes self))"
      using that by simp
    show ?thesis
    proof (cases "2 \<le> n * m")
      case True
      then have "complete_verdict \<in> set (complete_patterns (relator_body relator (reset self)))"
        by (simp add: body append_complete_def)
      with True show ?thesis
        unfolding validate_relator_pattern_def Let_def
        using fold_keeps_complete [OF appender_relator_body mem] by simp
    next
      case False
      then have "incomplete_verdict
                   \<in> set (incomplete_patterns (relator_body relator (reset self)))"
        by (simp add: body append_incomplete_def)
      with False show ?thesis
        unfolding validate_relator_pattern_def Let_def
        using fold_keeps_incomplete [OF appender_relator_body mem] by simp
    qed
  qed
  have zero: "zero_verdict \<in> set (incomplete_patterns (validate_relator_pattern self))"
    if "relator \<in> set (classes self)" "cls_stereotype relator = ''relator''" "n = 0"
  proof -
    have "incomplete_verdict = zero_verdict"
      using that(3) by (simp add: incomplete_verdict_def zero_verdict_def str_int_def str_nat.simps)
    with checker [OF that(1,2)] that(3) show ?thesis by simp
  qed
  from body [of self] checker zero show ?thesis
    unfolding Let_def n_def [symmetric] m_def [symmetric]
      complete_verdict_def [symmetric] incomplete_verdict_def [symmetric]
      zero_verdict_def [symmetric]
    by blast
qed

theorem relator_count_is_product_witness:
  "container_class ''Wedding'' ''relator'' [''mediation'', ''mediation''] 1
     \<in> set (classes (model_of wedding_model [] [])) \<and>
   length (internal_mediations (relations (model_of wedding_model [] []))) = 0 \<and>
   length (body_mediations (container_class ''Wedding'' ''relator'' [''mediation'', ''mediation''] 1))
     = 2 \<and>
   [(''type'', PStr ''Relator Pattern''),
    (''relator'', PStr ''Wedding''),
    (''mediations'', PInt 0),
    (''error'', PStr (''Relator deve ter pelo menos 2 media''
       @ [CHR 0xE7, CHR 0xF5] @ ''es (tem 0)'')),
    (''suggestion'', PStr (''Adicione rela'' @ [CHR 0xE7, CHR 0xF5]
       @ ''es @mediation dentro do relator Wedding'')),
    (''line'', PInt 1)]
     \<in> set (incomplete_patterns (validate_relator_pattern (model_of wedding_model [] []))) \<and>
   length (internal_mediations
     (relations (model_of marriage_model [] [internal_mediation, internal_mediation]))) = 2 \<and>
   length (body_mediations (container_class ''Marriage'' ''relator'' [''mediation''] 1)) = 1 \<and>
   [(''type'', PStr ''Relator Pattern''),
    (''relator'', PStr ''Marriage''),
    (''mediations'', PInt 2),
    (''line'', PInt 1)]
     \<in> set (complete_patterns (validate_relator_pattern
              (model_of marriage_model [] [internal_mediation, internal_mediation])))"
proof -
  let ?w = "container_class ''Wedding'' ''relator'' [''mediation'', ''mediation''] 1"
  let ?v = "model_of wedding_model [] []"
  let ?m = "container_class ''Marriage'' ''relator'' [''mediation''] 1"
  let ?u = "model_of marriage_model [] [internal_mediation, internal_mediation]"
  have w: "?w \<in> set (classes ?v)" "length (internal_mediations (relations ?v)) = 0"
    "length (body_mediations ?w) = 2"
    by (simp_all add: wedding_model_def internal_mediations_def body_mediations_def)
  have m: "?m \<in> set (classes ?u)" "length (internal_mediations (relations ?u)) = 2"
    "length (body_mediations ?m) = 1"
    by (simp_all add: marriage_model_def internal_mediations_def body_mediations_def
        internal_mediation_def)
  show ?thesis
    using relator_count_is_product [of ?v ?w] relator_count_is_product [of ?u ?m] w m
    by (simp add: Let_def)
qed

lemmas relator_eval =
  validate_relator_pattern_def relator_body_def relator_med_loop_def relator_member_loop_def
  append_complete_def append_incomplete_def Let_def marriage_model_def wedding_model_def
  internal_mediation_def str_int_def str_nat.simps

text \<open>
  C1. The Relator checker at two models. With two relators of one mediation member each
  and the two internal mediation relations of the model, each relator is recorded as
  Complete with 2 mediations, although its body has a single mediation member. With one
  relator of two mediation members and no relation in the model, the relator is recorded
  as Incomplete with 0 mediations. In both the count is not the number of mediation
  members of the relator's body.
\<close>

theorem relator_counts_global_mediations:
  "length (body_mediations (container_class ''Marriage'' ''relator'' [''mediation''] 1)) = 1 \<and>
   length (body_mediations (container_class ''Employment'' ''relator'' [''mediation''] 5)) = 1 \<and>
   complete_patterns (validate_relator_pattern
       (model_of marriage_model [] [internal_mediation, internal_mediation])) =
     [[(''type'', PStr ''Relator Pattern''),
       (''relator'', PStr ''Marriage''),
       (''mediations'', PInt 2),
       (''line'', PInt 1)],
      [(''type'', PStr ''Relator Pattern''),
       (''relator'', PStr ''Employment''),
       (''mediations'', PInt 2),
       (''line'', PInt 5)]] \<and>
   incomplete_patterns (validate_relator_pattern
       (model_of marriage_model [] [internal_mediation, internal_mediation])) = [] \<and>
   length (body_mediations
             (container_class ''Wedding'' ''relator'' [''mediation'', ''mediation''] 1)) = 2 \<and>
   complete_patterns (validate_relator_pattern (model_of wedding_model [] [])) = [] \<and>
   incomplete_patterns (validate_relator_pattern (model_of wedding_model [] [])) =
     [[(''type'', PStr ''Relator Pattern''),
       (''relator'', PStr ''Wedding''),
       (''mediations'', PInt 0),
       (''error'', PStr (''Relator deve ter pelo menos 2 media''
          @ [CHR 0xE7, CHR 0xF5] @ ''es (tem 0)'')),
       (''suggestion'', PStr (''Adicione rela'' @ [CHR 0xE7, CHR 0xF5]
          @ ''es @mediation dentro do relator Wedding'')),
       (''line'', PInt 1)]]"
  by (simp add: relator_eval body_mediations_def)

subsection \<open>Suggestions of the Subkind, Role and Phase checkers\<close>

lemma subkind_body_incomplete:
  "set (incomplete_patterns (subkind_body k (reset self))) =
     (let names = map cls_name (specializing ''subkind'' (cls_name k) (classes self))
      in if 2 \<le> length names \<and>
            find_genset_for_classes self (cls_name k) names (Some [''disjoint'', ''complete'']) None = None
         then {[(''type'', PStr ''Subkind Pattern''),
                (''kind'', PStr (cls_name k)),
                (''subkinds'', PList names),
                (''error'', PStr ''Falta genset disjoint complete''),
                (''suggestion'', PStr (''Adicione: '' @ declaration_text ''disjoint complete''
                   (cls_name k @ ''_Genset'') (cls_name k) names)),
                (''line'', PInt (cls_line k))]}
         else {})"
  by (auto simp: subkind_body_def specializing_def declaration_text_def body_defs
      split: option.splits)

lemma role_body_incomplete:
  "set (incomplete_patterns (role_body k (reset self))) =
     (let names = map cls_name (specializing ''role'' (cls_name k) (classes self))
      in if 2 \<le> length names \<and>
            find_genset_for_classes self (cls_name k) names (Some [''complete'']) (Some [''disjoint'']) = None
         then {[(''type'', PStr ''Role Pattern''),
                (''kind'', PStr (cls_name k)),
                (''roles'', PList names),
                (''error'', PStr ''Falta genset complete (sem disjoint)''),
                (''suggestion'', PStr (''Adicione: '' @ declaration_text ''complete''
                   (cls_name k @ ''_Role_Genset'') (cls_name k) names)),
                (''line'', PInt (cls_line k))]}
         else {})"
  by (auto simp: role_body_def specializing_def declaration_text_def body_defs
      split: option.splits)

lemma phase_body_incomplete:
  "set (incomplete_patterns (phase_body k (reset self))) =
     (let names = map cls_name (specializing ''phase'' (cls_name k) (classes self))
      in if 2 \<le> length names \<and>
            find_genset_for_classes self (cls_name k) names (Some [''disjoint'']) None = None
         then {[(''type'', PStr ''Phase Pattern''),
                (''kind'', PStr (cls_name k)),
                (''phases'', PList names),
                (''error'', PStr (''Falta genset disjoint (obrigat'' @ [CHR 0xF3] @ ''rio para phases)'')),
                (''suggestion'', PStr (''Adicione: '' @ declaration_text ''disjoint complete''
                   (cls_name k @ ''_Phase_Genset'') (cls_name k) names)),
                (''line'', PInt (cls_line k))]}
         else {})"
  by (auto simp: phase_body_def specializing_def declaration_text_def body_defs
      split: option.splits)

lemmas kind_eval =
  validate_subkind_pattern_def validate_role_pattern_def validate_phase_pattern_def
  subkind_body_def role_body_def phase_body_def find_genset_for_classes_def
  append_complete_def append_incomplete_def Let_def

text \<open>
  C5 (amended). The Incomplete verdicts the Subkind checker emits are exactly these: for
  a kind \<open>K\<close> of the model with at least two subkinds listing it among their parents and
  no genset the matcher accepts for them, the verdict that carries \<open>K\<close>'s own name under
  \<open>kind\<close>, the names of \<open>K\<close>'s collected subkinds in collection order under
  \<open>subkinds\<close>, \<open>K\<close>'s line, and as suggestion \<open>Adicione: \<close> followed by the declaration
  \<open>M genset N { general K specifics s1, s2, ... }\<close> over that same name and those same
  specializer names. The same holds of the Role checker with roles and of the Phase
  checker with phases. The modifier words \<open>M\<close> are \<open>disjoint complete\<close> for Subkind and
  for Phase and \<open>complete\<close> for Role, and the genset name \<open>N\<close> is \<open>K_Genset\<close> for
  Subkind, \<open>K_Role_Genset\<close> for Role and \<open>K_Phase_Genset\<close> for Phase.
\<close>

theorem suggestion_declaration_text:
  "(\<forall>d. d \<in> set (incomplete_patterns (validate_subkind_pattern (reset self))) \<longleftrightarrow>
      (\<exists>kind \<in> set (classes self). cls_stereotype kind = ''kind'' \<and>
         (let names = map cls_name (specializing ''subkind'' (cls_name kind) (classes self))
          in 2 \<le> length names \<and>
             find_genset_for_classes self (cls_name kind) names (Some [''disjoint'', ''complete'']) None = None \<and>
             d = [(''type'', PStr ''Subkind Pattern''),
                  (''kind'', PStr (cls_name kind)),
                  (''subkinds'', PList names),
                  (''error'', PStr ''Falta genset disjoint complete''),
                  (''suggestion'', PStr (''Adicione: '' @ declaration_text ''disjoint complete''
                     (cls_name kind @ ''_Genset'') (cls_name kind) names)),
                  (''line'', PInt (cls_line kind))]))) \<and>
   (\<forall>d. d \<in> set (incomplete_patterns (validate_role_pattern (reset self))) \<longleftrightarrow>
      (\<exists>kind \<in> set (classes self). cls_stereotype kind = ''kind'' \<and>
         (let names = map cls_name (specializing ''role'' (cls_name kind) (classes self))
          in 2 \<le> length names \<and>
             find_genset_for_classes self (cls_name kind) names (Some [''complete'']) (Some [''disjoint'']) = None \<and>
             d = [(''type'', PStr ''Role Pattern''),
                  (''kind'', PStr (cls_name kind)),
                  (''roles'', PList names),
                  (''error'', PStr ''Falta genset complete (sem disjoint)''),
                  (''suggestion'', PStr (''Adicione: '' @ declaration_text ''complete''
                     (cls_name kind @ ''_Role_Genset'') (cls_name kind) names)),
                  (''line'', PInt (cls_line kind))]))) \<and>
   (\<forall>d. d \<in> set (incomplete_patterns (validate_phase_pattern (reset self))) \<longleftrightarrow>
      (\<exists>kind \<in> set (classes self). cls_stereotype kind = ''kind'' \<and>
         (let names = map cls_name (specializing ''phase'' (cls_name kind) (classes self))
          in 2 \<le> length names \<and>
             find_genset_for_classes self (cls_name kind) names (Some [''disjoint'']) None = None \<and>
             d = [(''type'', PStr ''Phase Pattern''),
                  (''kind'', PStr (cls_name kind)),
                  (''phases'', PList names),
                  (''error'', PStr (''Falta genset disjoint (obrigat'' @ [CHR 0xF3] @ ''rio para phases)'')),
                  (''suggestion'', PStr (''Adicione: '' @ declaration_text ''disjoint complete''
                     (cls_name kind @ ''_Phase_Genset'') (cls_name kind) names)),
                  (''line'', PInt (cls_line kind))])))"
proof (intro conjI)
  show "(\<forall>d. d \<in> set (incomplete_patterns (validate_subkind_pattern (reset self))) \<longleftrightarrow>
              (\<exists>kind \<in> set (classes self). cls_stereotype kind = ''kind'' \<and>
                 (let names = map cls_name (specializing ''subkind'' (cls_name kind) (classes self))
                  in 2 \<le> length names \<and>
                     find_genset_for_classes self (cls_name kind) names (Some [''disjoint'', ''complete'']) None = None \<and>
                     d = [(''type'', PStr ''Subkind Pattern''),
                          (''kind'', PStr (cls_name kind)),
                          (''subkinds'', PList names),
                          (''error'', PStr ''Falta genset disjoint complete''),
                          (''suggestion'', PStr (''Adicione: '' @ declaration_text ''disjoint complete''
                             (cls_name kind @ ''_Genset'') (cls_name kind) names)),
                          (''line'', PInt (cls_line kind))])))"
    unfolding validate_subkind_pattern_def Let_def fields_reset
      fold_emitted_incomplete [where f = subkind_body, OF appender_subkind_body]
    by (auto simp: subkind_body_incomplete Let_def split: if_splits)
next
  show "(\<forall>d. d \<in> set (incomplete_patterns (validate_role_pattern (reset self))) \<longleftrightarrow>
              (\<exists>kind \<in> set (classes self). cls_stereotype kind = ''kind'' \<and>
                 (let names = map cls_name (specializing ''role'' (cls_name kind) (classes self))
                  in 2 \<le> length names \<and>
                     find_genset_for_classes self (cls_name kind) names (Some [''complete'']) (Some [''disjoint'']) = None \<and>
                     d = [(''type'', PStr ''Role Pattern''),
                          (''kind'', PStr (cls_name kind)),
                          (''roles'', PList names),
                          (''error'', PStr ''Falta genset complete (sem disjoint)''),
                          (''suggestion'', PStr (''Adicione: '' @ declaration_text ''complete''
                             (cls_name kind @ ''_Role_Genset'') (cls_name kind) names)),
                          (''line'', PInt (cls_line kind))])))"
    unfolding validate_role_pattern_def Let_def fields_reset
      fold_emitted_incomplete [where f = role_body, OF appender_role_body]
    by (auto simp: role_body_incomplete Let_def split: if_splits)
next
  show "(\<forall>d. d \<in> set (incomplete_patterns (validate_phase_pattern (reset self))) \<longleftrightarrow>
              (\<exists>kind \<in> set (classes self). cls_stereotype kind = ''kind'' \<and>
                 (let names = map cls_name (specializing ''phase'' (cls_name kind) (classes self))
                  in 2 \<le> length names \<and>
                     find_genset_for_classes self (cls_name kind) names (Some [''disjoint'']) None = None \<and>
                     d = [(''type'', PStr ''Phase Pattern''),
                          (''kind'', PStr (cls_name kind)),
                          (''phases'', PList names),
                          (''error'', PStr (''Falta genset disjoint (obrigat'' @ [CHR 0xF3] @ ''rio para phases)'')),
                          (''suggestion'', PStr (''Adicione: '' @ declaration_text ''disjoint complete''
                             (cls_name kind @ ''_Phase_Genset'') (cls_name kind) names)),
                          (''line'', PInt (cls_line kind))])))"
    unfolding validate_phase_pattern_def Let_def fields_reset
      fold_emitted_incomplete [where f = phase_body, OF appender_phase_body]
    by (auto simp: phase_body_incomplete Let_def split: if_splits)
qed

theorem suggestion_declaration_text_witness:
  "plain_class ''Person'' ''kind'' [] 1 \<in> set (classes (model_of person_full [] [])) \<and>
   map cls_name (specializing ''phase'' ''Person'' (classes (model_of person_full [] [])))
     = [''Child'', ''Adult''] \<and>
   find_genset_for_classes (model_of person_full [] []) ''Person'' [''Child'', ''Adult'']
     (Some [''disjoint'']) None = None \<and>
   [(''type'', PStr ''Phase Pattern''),
    (''kind'', PStr ''Person''),
    (''phases'', PList [''Child'', ''Adult'']),
    (''error'', PStr (''Falta genset disjoint (obrigat'' @ [CHR 0xF3] @ ''rio para phases)'')),
    (''suggestion'', PStr
       ''Adicione: disjoint complete genset Person_Phase_Genset { general Person specifics Child, Adult }''),
    (''line'', PInt 1)]
     \<in> set (incomplete_patterns (validate_phase_pattern (reset (model_of person_full [] [])))) \<and>
   [(''type'', PStr ''Phase Pattern''),
    (''kind'', PStr ''Person''),
    (''phases'', PList [''Child'', ''Adult'']),
    (''error'', PStr (''Falta genset disjoint (obrigat'' @ [CHR 0xF3] @ ''rio para phases)'')),
    (''suggestion'', PStr
       ''Adicione: disjoint complete genset Man_Phase_Genset { general Man specifics  }''),
    (''line'', PInt 1)]
     \<notin> set (incomplete_patterns (validate_phase_pattern (reset (model_of person_full [] []))))"
proof -
  let ?M = "model_of person_full [] []"
  let ?k = "plain_class ''Person'' ''kind'' [] 1"
  let ?V = "[(''type'', PStr ''Phase Pattern''),
    (''kind'', PStr ''Person''),
    (''phases'', PList [''Child'', ''Adult'']),
    (''error'', PStr (''Falta genset disjoint (obrigat'' @ [CHR 0xF3] @ ''rio para phases)'')),
    (''suggestion'', PStr
       ''Adicione: disjoint complete genset Person_Phase_Genset { general Person specifics Child, Adult }''),
    (''line'', PInt 1)]"
  let ?W = "[(''type'', PStr ''Phase Pattern''),
    (''kind'', PStr ''Person''),
    (''phases'', PList [''Child'', ''Adult'']),
    (''error'', PStr (''Falta genset disjoint (obrigat'' @ [CHR 0xF3] @ ''rio para phases)'')),
    (''suggestion'', PStr
       ''Adicione: disjoint complete genset Man_Phase_Genset { general Man specifics  }''),
    (''line'', PInt 1)]"
  note phase = suggestion_declaration_text [of ?M, THEN conjunct2, THEN conjunct2]
  have k: "?k \<in> set (classes ?M)"
    by (simp add: person_full_def)
  have names: "map cls_name (specializing ''phase'' ''Person'' (classes ?M)) = [''Child'', ''Adult'']"
    by (simp add: person_full_def specializing_def)
  have none: "find_genset_for_classes ?M ''Person'' [''Child'', ''Adult''] (Some [''disjoint''])
                None = None"
    by (simp add: find_genset_for_classes_def)
  have "\<exists>kind \<in> set (classes ?M). cls_stereotype kind = ''kind'' \<and>
         (let names = map cls_name (specializing ''phase'' (cls_name kind) (classes ?M))
          in 2 \<le> length names \<and>
             find_genset_for_classes ?M (cls_name kind) names (Some [''disjoint'']) None = None \<and>
             ?V = [(''type'', PStr ''Phase Pattern''),
                  (''kind'', PStr (cls_name kind)),
                  (''phases'', PList names),
                  (''error'', PStr (''Falta genset disjoint (obrigat'' @ [CHR 0xF3]
                     @ ''rio para phases)'')),
                  (''suggestion'', PStr (''Adicione: '' @ declaration_text ''disjoint complete''
                     (cls_name kind @ ''_Phase_Genset'') (cls_name kind) names)),
                  (''line'', PInt (cls_line kind))])"
    using k names none
    by (intro bexI [of _ ?k]) (simp_all add: Let_def declaration_text_def)
  then have mem: "?V \<in> set (incomplete_patterns (validate_phase_pattern (reset ?M)))"
    using phase by blast
  have "\<not> (\<exists>kind \<in> set (classes ?M). cls_stereotype kind = ''kind'' \<and>
         (let names = map cls_name (specializing ''phase'' (cls_name kind) (classes ?M))
          in 2 \<le> length names \<and>
             find_genset_for_classes ?M (cls_name kind) names (Some [''disjoint'']) None = None \<and>
             ?W = [(''type'', PStr ''Phase Pattern''),
                  (''kind'', PStr (cls_name kind)),
                  (''phases'', PList names),
                  (''error'', PStr (''Falta genset disjoint (obrigat'' @ [CHR 0xF3]
                     @ ''rio para phases)'')),
                  (''suggestion'', PStr (''Adicione: '' @ declaration_text ''disjoint complete''
                     (cls_name kind @ ''_Phase_Genset'') (cls_name kind) names)),
                  (''line'', PInt (cls_line kind))]))"
    by (simp add: person_full_def specializing_def Let_def declaration_text_def)
  then have notmem: "?W \<notin> set (incomplete_patterns (validate_phase_pattern (reset ?M)))"
    using phase by blast
  from k names none mem notmem show ?thesis by blast
qed

text \<open>
  C5 as stated fails on a kind with two subkinds, two roles, two phases and no genset:
  each of the three suggestions differs from the specification's template over the
  pattern's required modifiers; those of Role and Phase do not even contain it.
\<close>

theorem suggestion_is_not_spec_template:
  "incomplete_patterns (validate_subkind_pattern (model_of person_full [] [])) =
     [[(''type'', PStr ''Subkind Pattern''),
       (''kind'', PStr ''Person''),
       (''subkinds'', PList [''Man'', ''Woman'']),
       (''error'', PStr ''Falta genset disjoint complete''),
       (''suggestion'', PStr
          ''Adicione: disjoint complete genset Person_Genset { general Person specifics Man, Woman }''),
       (''line'', PInt 1)]] \<and>
   spec_suggestion_template [''disjoint'', ''complete''] ''Person'' [''Man'', ''Woman''] =
     ''disjoint complete genset Person_Genset { general Person specifics Man, Woman }'' \<and>
   ''Adicione: disjoint complete genset Person_Genset { general Person specifics Man, Woman }''
     \<noteq> spec_suggestion_template [''disjoint'', ''complete''] ''Person'' [''Man'', ''Woman''] \<and>
   incomplete_patterns (validate_role_pattern (model_of person_full [] [])) =
     [[(''type'', PStr ''Role Pattern''),
       (''kind'', PStr ''Person''),
       (''roles'', PList [''Student'', ''Teacher'']),
       (''error'', PStr ''Falta genset complete (sem disjoint)''),
       (''suggestion'', PStr
          ''Adicione: complete genset Person_Role_Genset { general Person specifics Student, Teacher }''),
       (''line'', PInt 1)]] \<and>
   spec_suggestion_template [''complete''] ''Person'' [''Student'', ''Teacher''] =
     ''complete genset Person_Genset { general Person specifics Student, Teacher }'' \<and>
   \<not> sublist (spec_suggestion_template [''complete''] ''Person'' [''Student'', ''Teacher''])
       ''Adicione: complete genset Person_Role_Genset { general Person specifics Student, Teacher }'' \<and>
   incomplete_patterns (validate_phase_pattern (model_of person_full [] [])) =
     [[(''type'', PStr ''Phase Pattern''),
       (''kind'', PStr ''Person''),
       (''phases'', PList [''Child'', ''Adult'']),
       (''error'', PStr (''Falta genset disjoint (obrigat'' @ [CHR 0xF3] @ ''rio para phases)'')),
       (''suggestion'', PStr
          ''Adicione: disjoint complete genset Person_Phase_Genset { general Person specifics Child, Adult }''),
       (''line'', PInt 1)]] \<and>
   spec_suggestion_template [''disjoint''] ''Person'' [''Child'', ''Adult''] =
     ''disjoint genset Person_Genset { general Person specifics Child, Adult }'' \<and>
   \<not> sublist (spec_suggestion_template [''disjoint''] ''Person'' [''Child'', ''Adult''])
       ''Adicione: disjoint complete genset Person_Phase_Genset { general Person specifics Child, Adult }''"
proof -
  have "\<not> sublist ''complete genset Person_Genset { general Person specifics Student, Teacher }''
       ''Adicione: complete genset Person_Role_Genset { general Person specifics Student, Teacher }''"
    by (simp add: sublist_code)
  moreover have "\<not> sublist ''disjoint genset Person_Genset { general Person specifics Child, Adult }''
       ''Adicione: disjoint complete genset Person_Phase_Genset { general Person specifics Child, Adult }''"
    by (simp add: sublist_code)
  ultimately show ?thesis
    by (simp add: kind_eval person_full_def spec_suggestion_template_def)
qed

subsection \<open>Mode pattern\<close>

lemma mode_scan_fold:
  "fold (\<lambda>member (has_characterization, has_external_dependence).
           (if mem_stereotype member = Some ''characterization'' then True
            else has_characterization,
            if mem_stereotype member = Some ''externalDependence'' then True
            else has_external_dependence))
     body (a, b)
   = (a \<or> list_ex (\<lambda>m. mem_stereotype m = Some ''characterization'') body,
      b \<or> list_ex (\<lambda>m. mem_stereotype m = Some ''externalDependence'') body)"
  by (induction body arbitrary: a b) auto

lemma mode_scan_has_member:
  "mode_scan (cls_body mode) =
     (has_member ''characterization'' mode, has_member ''externalDependence'' mode)"
  by (auto simp: mode_scan_def has_member_def mode_scan_fold split: option.splits)

text \<open>
  C7 (amended). For every mode of the model whose body lacks a member with stereotype
  \<open>characterization\<close> or one with stereotype \<open>externalDependence\<close>, the iteration of the
  Mode checker for it appends exactly one Incomplete verdict, which is among the checker's
  results: its error lists the missing relation kinds and no other, separated by a comma
  (a mode with a characterization member alone gets an error naming only
  \<open>@externalDependence\<close>), and its suggestion names the missing relation kinds joined
  with \<open> e \<close>.
\<close>

theorem mode_missing_relations:
  assumes "mode \<in> set (classes self)"
    and "cls_stereotype mode = ''mode''"
    and "\<not> (has_member ''characterization'' mode \<and> has_member ''externalDependence'' mode)"
  shows "let missing = (if has_member ''characterization'' mode then [] else [''@characterization''])
                     @ (if has_member ''externalDependence'' mode then []
                        else [''@externalDependence'']);
             verdict =
               [(''type'', PStr ''Mode Pattern''),
                (''mode'', PStr (cls_name mode)),
                (''error'', PStr (''Faltam rela'' @ [CHR 0xE7, CHR 0xF5] @ ''es: ''
                   @ join '', '' missing)),
                (''suggestion'', PStr (''Adicione '' @ join '' e '' missing
                   @ '' dentro do mode '' @ cls_name mode)),
                (''line'', PInt (cls_line mode))]
         in mode_body mode self = append_incomplete verdict self \<and>
            verdict \<in> set (incomplete_patterns (validate_mode_pattern self)) \<and>
            (has_member ''characterization'' mode \<longrightarrow>
               map_of verdict ''error'' =
                 Some (PStr (''Faltam rela'' @ [CHR 0xE7, CHR 0xF5]
                    @ ''es: @externalDependence'')))"
proof -
  define missing where "missing =
      (if has_member ''characterization'' mode then [] else [''@characterization''])
      @ (if has_member ''externalDependence'' mode then [] else [''@externalDependence''])"
  define verdict where "verdict =
               [(''type'', PStr ''Mode Pattern''),
                (''mode'', PStr (cls_name mode)),
                (''error'', PStr (''Faltam rela'' @ [CHR 0xE7, CHR 0xF5] @ ''es: ''
                   @ join '', '' missing)),
                (''suggestion'', PStr (''Adicione '' @ join '' e '' missing
                   @ '' dentro do mode '' @ cls_name mode)),
                (''line'', PInt (cls_line mode))]"
  have body: "mode_body mode s = append_incomplete verdict s" for s
    using assms(3)
    by (auto simp: mode_body_def mode_scan_has_member Let_def verdict_def missing_def)
  have "verdict \<in> set (incomplete_patterns (validate_mode_pattern self))"
    unfolding validate_mode_pattern_def Let_def
  proof (rule fold_keeps_incomplete [OF appender_mode_body, of mode])
    show "mode \<in> set (filter (\<lambda>c. cls_stereotype c = ''mode'') (classes self))"
      using assms(1,2) by simp
    show "verdict \<in> set (incomplete_patterns (mode_body mode (reset self)))"
      by (simp add: body append_incomplete_def)
  qed
  moreover have "map_of verdict ''error'' =
                 Some (PStr (''Faltam rela'' @ [CHR 0xE7, CHR 0xF5]
                    @ ''es: @externalDependence''))"
    if "has_member ''characterization'' mode"
    using that assms(3) by (simp add: verdict_def missing_def)
  ultimately show ?thesis
    using body [of self]
    unfolding Let_def missing_def [symmetric] verdict_def [symmetric] by blast
qed

theorem mode_missing_relations_witness:
  "skill_mode \<in> set (classes (model_of [color_mode, skill_mode] [] [])) \<and>
   has_member ''characterization'' skill_mode \<and>
   \<not> has_member ''externalDependence'' skill_mode \<and>
   [(''type'', PStr ''Mode Pattern''),
    (''mode'', PStr ''Skill''),
    (''error'', PStr (''Faltam rela'' @ [CHR 0xE7, CHR 0xF5] @ ''es: @externalDependence'')),
    (''suggestion'', PStr ''Adicione @externalDependence dentro do mode Skill''),
    (''line'', PInt 2)]
     \<in> set (incomplete_patterns (validate_mode_pattern (model_of [color_mode, skill_mode] [] [])))"
proof -
  let ?v = "model_of [color_mode, skill_mode] [] []"
  have h1: "skill_mode \<in> set (classes ?v)" by simp
  have h2: "cls_stereotype skill_mode = ''mode''" by (simp add: skill_mode_def)
  have c: "has_member ''characterization'' skill_mode"
    and e: "\<not> has_member ''externalDependence'' skill_mode"
    by (simp_all add: skill_mode_def has_member_def)
  then have h3: "\<not> (has_member ''characterization'' skill_mode \<and>
                     has_member ''externalDependence'' skill_mode)"
    by simp
  have f: "cls_name skill_mode = ''Skill''" "cls_line skill_mode = 2"
    by (simp_all add: skill_mode_def)
  show ?thesis
    using mode_missing_relations [OF h1 h2 h3] h1 c e
    by (simp add: Let_def f)
qed

text \<open>
  C7 as stated fails on a mode without a body: both relation kinds are missing and the
  suggestion joins them with \<open> e \<close>; the word \<open>and\<close> does not occur in it.
\<close>

theorem mode_suggestion_joined_with_e:
  "incomplete_patterns (validate_mode_pattern (model_of [color_mode] [] [])) =
     [[(''type'', PStr ''Mode Pattern''),
       (''mode'', PStr ''Color''),
       (''error'', PStr (''Faltam rela'' @ [CHR 0xE7, CHR 0xF5]
          @ ''es: @characterization, @externalDependence'')),
       (''suggestion'', PStr
          ''Adicione @characterization e @externalDependence dentro do mode Color''),
       (''line'', PInt 1)]] \<and>
   ''Adicione @characterization e @externalDependence dentro do mode Color''
     \<noteq> ''Adicione @characterization and @externalDependence dentro do mode Color'' \<and>
   \<not> sublist ''and'' ''Adicione @characterization e @externalDependence dentro do mode Color''"
  by (simp add: validate_mode_pattern_def mode_body_def mode_scan_def append_complete_def
      append_incomplete_def Let_def color_mode_def sublist_code)

subsection \<open>Idempotence of a validation run\<close>

lemma run_checkers_all: "run_checkers self = all_checkers (reset self)"
  by (simp add: run_checkers_def all_checkers_def reset_def)

lemma appender_all_checkers: "appender all_checkers"
  unfolding all_checkers_def
  by (rule appender_comp [OF appender_comp [OF appender_comp [OF appender_comp
        [OF appender_comp [OF appender_checkers(1) appender_checkers(2)]
          appender_checkers(3)] appender_checkers(4)] appender_checkers(5)]
        appender_checkers(6)])

lemma reset_run_checkers: "reset (run_checkers self) = reset self"
proof -
  have "run_checkers self =
          emit (complete_patterns (all_checkers (reset (reset self))))
               (incomplete_patterns (all_checkers (reset (reset self)))) (reset self)"
    unfolding run_checkers_all by (rule appenderD [OF appender_all_checkers])
  then show ?thesis by simp
qed

lemma run_checkers_idem: "run_checkers (run_checkers self) = run_checkers self"
  by (simp add: run_checkers_all [of "run_checkers self"] reset_run_checkers)
     (simp add: run_checkers_all)

lemma run_checkers_fresh:
  "run_checkers (self\<lparr>complete_patterns := cs, incomplete_patterns := ics\<rparr>) = run_checkers self"
  by (simp add: run_checkers_def)

lemmas format_eval =
  format_complete_pattern_def format_incomplete_pattern_def getitem_def dict_get_def
  bind_err_def py_in_def Let_def sublist_code

lemma formattable_append [simp]:
  "formattable py (append_complete d self) \<longleftrightarrow>
     formattable py self \<and> (\<exists>r. format_complete_pattern py d = Inr r) \<and>
     (\<exists>t. getitem d ''type'' = Inr (PStr t))"
  "formattable py (append_incomplete d self) \<longleftrightarrow>
     formattable py self \<and> (\<exists>r. format_incomplete_pattern d = Inr r) \<and>
     (\<exists>t. getitem d ''type'' = Inr (PStr t))"
  by (auto simp: formattable_def append_complete_def append_incomplete_def)

lemma formattable_subkind_body: "formattable py self \<Longrightarrow> formattable py (subkind_body k self)"
  by (simp add: subkind_body_def Let_def format_eval split: option.splits)

lemma formattable_role_body: "formattable py self \<Longrightarrow> formattable py (role_body k self)"
  by (simp add: role_body_def Let_def format_eval split: option.splits)

lemma formattable_phase_body: "formattable py self \<Longrightarrow> formattable py (phase_body k self)"
  by (simp add: phase_body_def Let_def format_eval split: option.splits)

lemma formattable_relator_body: "formattable py self \<Longrightarrow> formattable py (relator_body k self)"
  by (simp add: relator_body_def Let_def format_eval)

lemma formattable_mode_body: "formattable py self \<Longrightarrow> formattable py (mode_body k self)"
  by (simp add: mode_body_def Let_def format_eval split: prod.splits)

lemma formattable_rolemixin_body:
  "formattable py self \<Longrightarrow> formattable py (rolemixin_body k self)"
  by (simp add: rolemixin_body_def Let_def format_eval split: option.splits)

lemma formattable_fold:
  assumes "\<And>c s. formattable py s \<Longrightarrow> formattable py (f c s)"
  shows "formattable py self \<Longrightarrow> formattable py (fold f cs self)"
  by (induction cs arbitrary: self) (simp_all add: assms)

lemma formattable_run_checkers: "formattable py (run_checkers self)"
proof -
  have "formattable py (self\<lparr>complete_patterns := [], incomplete_patterns := []\<rparr>)"
    by (simp add: formattable_def)
  then show ?thesis
    unfolding run_checkers_def validate_subkind_pattern_def validate_role_pattern_def
      validate_phase_pattern_def validate_relator_pattern_def validate_mode_pattern_def
      validate_rolemixin_pattern_def Let_def
    by (intro formattable_fold formattable_subkind_body formattable_role_body
        formattable_phase_body formattable_relator_body formattable_mode_body
        formattable_rolemixin_body)
qed

lemma map_err_total:
  assumes "\<forall>x \<in> set xs. \<exists>y. f x = Inr y"
  shows "\<exists>ys. map_err f xs = Inr ys \<and> length ys = length xs"
  using assms
  by (induction xs) (auto simp: bind_err_def)

text \<open>
  C8. \<open>validate_all\<close> is idempotent: called on the validator a first call leaves behind,
  it returns the same value and leaves the same validator, so the two calls yield the
  same complete and incomplete sequences with the same contents in the same order. The
  result lists the validator held before a call have no influence on the call, and the
  call raises no exception: it returns the two formatted sequences.
\<close>

theorem validate_all_idempotent:
  "validate_all py (snd (validate_all py self)) = validate_all py self \<and>
   (\<forall>cs ics. validate_all py (self\<lparr>complete_patterns := cs, incomplete_patterns := ics\<rparr>)
               = validate_all py self) \<and>
   (\<exists>r. fst (validate_all py self) = Inr r)"
proof -
  have "validate_all py (snd (validate_all py self)) = validate_all py self"
    by (simp add: validate_all_def Let_def run_checkers_idem)
  moreover have "validate_all py (self\<lparr>complete_patterns := cs, incomplete_patterns := ics\<rparr>)
                   = validate_all py self" for cs ics
    by (simp add: validate_all_def run_checkers_fresh)
  moreover have "\<exists>r. fst (validate_all py self) = Inr r"
  proof -
    have f: "formattable py (run_checkers self)"
      by (rule formattable_run_checkers)
    obtain cs where cs: "map_err (format_complete_pattern py)
                           (complete_patterns (run_checkers self)) = Inr cs"
      using f map_err_total [of "complete_patterns (run_checkers self)"
          "format_complete_pattern py"]
      unfolding formattable_def by blast
    obtain ics where ics: "map_err format_incomplete_pattern
                             (incomplete_patterns (run_checkers self)) = Inr ics"
      using f map_err_total [of "incomplete_patterns (run_checkers self)"
          format_incomplete_pattern]
      unfolding formattable_def by blast
    show ?thesis
      by (simp add: validate_all_def Let_def cs ics bind_err_def)
  qed
  ultimately show ?thesis by blast
qed

subsection \<open>Summary\<close>

lemma sum_list_update:
  fixes al :: "('k \<times> nat) list"
  shows "sum_list (map snd (AList.update k v al)) + field_get (map_of al k) 0
           = sum_list (map snd al) + v"
proof (induction al)
  case Nil
  show ?case by simp
next
  case (Cons a al)
  show ?case
  proof (cases "fst a = k")
    case True
    then show ?thesis by (cases a) simp
  next
    case False
    with Cons.IH show ?thesis by (cases a) simp
  qed
qed

lemma count_by_type_loop_correct:
  assumes "\<forall>p \<in> set ps. \<exists>t. getitem p ''type'' = Inr (PStr t)"
    and "distinct (map fst counts)"
    and "\<forall>t n. map_of counts t = Some n \<longrightarrow> 0 < n"
  shows "\<exists>cs. count_by_type_loop ps counts = Inr cs \<and>
              distinct (map fst cs) \<and>
              (\<forall>t n. map_of cs t = Some n \<longrightarrow> 0 < n) \<and>
              (\<forall>t. field_get (map_of cs t) 0 = field_get (map_of counts t) 0 + tally ps t) \<and>
              sum_list (map snd cs) = sum_list (map snd counts) + length ps"
  using assms
proof (induction ps arbitrary: counts)
  case Nil
  then show ?case by (simp add: tally_def)
next
  case (Cons p ps)
  from Cons.prems(1) obtain name where name: "getitem p ''type'' = Inr (PStr name)"
    by auto
  define ptype where "ptype = PStr name"
  have ptype: "getitem p ''type'' = Inr ptype"
    by (simp add: name ptype_def)
  let ?n = "field_get (map_of counts ptype) 0 + 1"
  let ?counts = "AList.update ptype ?n counts"
  have d: "distinct (map fst ?counts)"
    using Cons.prems(2) by (rule distinct_update)
  have pos: "\<forall>t n. map_of ?counts t = Some n \<longrightarrow> 0 < n"
    using Cons.prems(3) by (simp add: update_conv')
  have rest: "\<forall>p \<in> set ps. \<exists>t. getitem p ''type'' = Inr (PStr t)"
    using Cons.prems(1) by simp
  from Cons.IH [OF rest d pos] obtain cs where cs:
    "count_by_type_loop ps ?counts = Inr cs" "distinct (map fst cs)"
    "\<forall>t n. map_of cs t = Some n \<longrightarrow> 0 < n"
    "\<forall>t. field_get (map_of cs t) 0 = field_get (map_of ?counts t) 0 + tally ps t"
    "sum_list (map snd cs) = sum_list (map snd ?counts) + length ps"
    by blast
  have "count_by_type_loop (p # ps) counts = Inr cs"
    using cs(1) by (simp add: name ptype_def bind_err_def)
  moreover have "field_get (map_of cs t) 0 = field_get (map_of counts t) 0 + tally (p # ps) t"
    for t
    using cs(4) ptype by (auto simp: update_conv' tally_def)
  moreover have "sum_list (map snd cs) = sum_list (map snd counts) + length (p # ps)"
    using cs(5) sum_list_update [of ptype ?n counts] by simp
  ultimately show ?case
    using cs(2,3) by blast
qed

lemma count_by_type_correct:
  assumes "\<forall>p \<in> set ps. \<exists>t. getitem p ''type'' = Inr (PStr t)"
  shows "\<exists>cs. count_by_type ps = Inr cs \<and> distinct (map fst cs) \<and>
              (\<forall>t. map_of cs t = (if tally ps t = 0 then None else Some (tally ps t))) \<and>
              sum_list (map snd cs) = length ps"
proof -
  from count_by_type_loop_correct [OF assms, of "[]"] obtain cs where cs:
    "count_by_type_loop ps [] = Inr cs" "distinct (map fst cs)"
    "\<forall>t n. map_of cs t = Some n \<longrightarrow> 0 < n"
    "\<forall>t. field_get (map_of cs t) 0 = tally ps t"
    "sum_list (map snd cs) = length ps"
    by auto
  have "map_of cs t = (if tally ps t = 0 then None else Some (tally ps t))" for t
  proof (cases "map_of cs t")
    case None
    with cs(4) show ?thesis by (metis field_get_simps(1))
  next
    case (Some n)
    with cs(3,4) show ?thesis by (metis field_get_simps(2) less_numeral_extra(3))
  qed
  with cs(1,2,5) show ?thesis
    by (auto simp: count_by_type_def)
qed

text \<open>
  C9. After a run of \<open>validate_all\<close>, \<open>get_summary\<close> returns a summary (it raises no
  exception) whose totals are the lengths of the complete and incomplete sequences (those
  the run returned, and the validator's own), and
  whose two by-type tables have distinct keys, hold under each type value exactly the
  number of verdicts of the sequence with that \<open>type\<close> (and no entry for a type
  without verdicts), and sum to the respective total.
\<close>

theorem get_summary_partitions:
  "\<exists>s r. get_summary (snd (validate_all py self)) = Inr s \<and>
       fst (validate_all py self) = Inr r \<and>
       total_complete s = length (res_complete r) \<and>
       total_incomplete s = length (res_incomplete r) \<and>
       total_complete s = length (complete_patterns (snd (validate_all py self))) \<and>
       total_incomplete s = length (incomplete_patterns (snd (validate_all py self))) \<and>
       distinct (map fst (complete_by_type s)) \<and>
       distinct (map fst (incomplete_by_type s)) \<and>
       (\<forall>t. map_of (complete_by_type s) t =
              (if tally (complete_patterns (snd (validate_all py self))) t = 0 then None
               else Some (tally (complete_patterns (snd (validate_all py self))) t))) \<and>
       (\<forall>t. map_of (incomplete_by_type s) t =
              (if tally (incomplete_patterns (snd (validate_all py self))) t = 0 then None
               else Some (tally (incomplete_patterns (snd (validate_all py self))) t))) \<and>
       sum_list (map snd (complete_by_type s)) = total_complete s \<and>
       sum_list (map snd (incomplete_by_type s)) = total_incomplete s"
proof -
  define self' where "self' = snd (validate_all py self)"
  have self': "self' = run_checkers self"
    by (simp add: self'_def validate_all_def Let_def)
  have f: "formattable py self'"
    unfolding self' by (rule formattable_run_checkers)
  have "\<forall>p \<in> set (complete_patterns self'). \<exists>t. getitem p ''type'' = Inr (PStr t)"
    using f unfolding formattable_def by blast
  from count_by_type_correct [OF this] obtain cc where cc:
    "count_by_type (complete_patterns self') = Inr cc" "distinct (map fst cc)"
    "\<forall>t. map_of cc t = (if tally (complete_patterns self') t = 0 then None
                          else Some (tally (complete_patterns self') t))"
    "sum_list (map snd cc) = length (complete_patterns self')"
    by blast
  have "\<forall>p \<in> set (incomplete_patterns self'). \<exists>t. getitem p ''type'' = Inr (PStr t)"
    using f unfolding formattable_def by blast
  from count_by_type_correct [OF this] obtain ci where ci:
    "count_by_type (incomplete_patterns self') = Inr ci" "distinct (map fst ci)"
    "\<forall>t. map_of ci t = (if tally (incomplete_patterns self') t = 0 then None
                          else Some (tally (incomplete_patterns self') t))"
    "sum_list (map snd ci) = length (incomplete_patterns self')"
    by blast
  obtain fc where fc: "map_err (format_complete_pattern py) (complete_patterns self') = Inr fc"
    "length fc = length (complete_patterns self')"
    using f map_err_total [of "complete_patterns self'" "format_complete_pattern py"]
    unfolding formattable_def by blast
  obtain fi where fi: "map_err format_incomplete_pattern (incomplete_patterns self') = Inr fi"
    "length fi = length (incomplete_patterns self')"
    using f map_err_total [of "incomplete_patterns self'" format_incomplete_pattern]
    unfolding formattable_def by blast
  have r: "fst (validate_all py self) = Inr \<lparr>res_complete = fc, res_incomplete = fi\<rparr>"
    using fc(1) fi(1) by (simp add: validate_all_def Let_def self' bind_err_def)
  have "get_summary self' =
          Inr \<lparr>total_complete = length (complete_patterns self'),
               total_incomplete = length (incomplete_patterns self'),
               complete_by_type = cc, incomplete_by_type = ci\<rparr>"
    by (simp add: get_summary_def bind_err_def cc(1) ci(1))
  with cc ci r fc(2) fi(2) show ?thesis
    unfolding self'_def [symmetric] by simp
qed

end
